theory Spec2Isabelle
  imports Complex_Main "HOL-Library.Multiset" "HOL-Library.Log_Nat"
begin

section \<open>JavaScript values and built-ins used by the dashboard\<close>

text \<open>
  The dashboard is TypeScript. Its numbers are JavaScript numbers, that is binary64
  values: the model keeps \<open>NaN\<close> and the two infinities apart and holds a finite number as
  the rational it denotes. Parsing, division and multiplication round to the nearest
  binary64 value (\<open>fl64\<close> below). The sign of zero is not kept (\<open>-0\<close> and \<open>0\<close> are one
  value): the code compares, subtracts, tests truthiness, prints, and divides and
  multiplies array lengths, and none of these tells the two zeros apart. Strings are
  the UTF-8 bytes of the JavaScript string.
\<close>

datatype jsnum = NaN | NegInfinity | Finite rat | PosInfinity

text \<open>\<open>a < b\<close>: false as soon as one side is \<open>NaN\<close>.\<close>

fun js_lt :: "jsnum \<Rightarrow> jsnum \<Rightarrow> bool" where
  "js_lt NaN b = False"
| "js_lt a NaN = False"
| "js_lt (Finite x) (Finite y) = (x < y)"
| "js_lt a NegInfinity = False"
| "js_lt NegInfinity b = True"
| "js_lt PosInfinity b = False"
| "js_lt (Finite x) PosInfinity = True"

text \<open>\<open>a > b\<close> is \<open>b < a\<close>; \<open>a >= b\<close> is "neither is \<open>NaN\<close> and not \<open>a < b\<close>".\<close>

definition js_gt :: "jsnum \<Rightarrow> jsnum \<Rightarrow> bool" where
  "js_gt a b = js_lt b a"

definition js_ge :: "jsnum \<Rightarrow> jsnum \<Rightarrow> bool" where
  "js_ge a b = (a \<noteq> NaN \<and> b \<noteq> NaN \<and> \<not> js_lt a b)"

text \<open>
  \<open>a - b\<close> on numbers, as the comparator of the sort uses it. The difference is taken
  exactly: the sort reads its sign only, and rounding to binary64 keeps the sign (two
  binary64 values that differ, differ by a multiple of the least subnormal).
\<close>

fun js_sub :: "jsnum \<Rightarrow> jsnum \<Rightarrow> jsnum" where
  "js_sub NaN b = NaN"
| "js_sub a NaN = NaN"
| "js_sub (Finite x) (Finite y) = Finite (x - y)"
| "js_sub PosInfinity PosInfinity = NaN"
| "js_sub NegInfinity NegInfinity = NaN"
| "js_sub PosInfinity b = PosInfinity"
| "js_sub NegInfinity b = NegInfinity"
| "js_sub (Finite x) PosInfinity = NegInfinity"
| "js_sub (Finite x) NegInfinity = PosInfinity"

definition js_isNaN :: "jsnum \<Rightarrow> bool" where
  "js_isNaN a = (a = NaN)"

text \<open>\<open>x || 0\<close> on a number: \<open>NaN\<close> and zero are falsy, every other number is kept.\<close>

definition js_or_zero :: "jsnum \<Rightarrow> jsnum" where
  "js_or_zero a = (if a = NaN \<or> a = Finite 0 then Finite 0 else a)"

subsection \<open>Rounding to binary64\<close>

text \<open>
  \<open>ilen b p\<close> is the number of digits of \<open>p\<close> in base \<open>b\<close>. \<open>ilog2 x\<close> and \<open>ilog10 x\<close>
  are the integer logarithms of a positive rational: the digit counts of numerator and
  denominator give them up to one, and a comparison settles it. \<open>round64 a\<close> is the
  multiple of the unit in the last place of \<open>a > 0\<close> nearest to \<open>a\<close>, ties to the even
  multiple; the unit is \<open>2 ^ (e - 52)\<close> for the binary exponent \<open>e\<close> of \<open>a\<close>, and that
  of the subnormal numbers below \<open>2 ^ - 1022\<close>. \<open>fl64\<close> is the number a rational rounds
  to: an infinity when the rounded value reaches \<open>2 ^ 1024\<close>, that is when its binary
  exponent is 1024 or more.
\<close>

definition pow2 :: "int \<Rightarrow> rat" where
  "pow2 k = (if 0 \<le> k then 2 ^ nat k else 1 / 2 ^ nat (- k))"

definition pow10 :: "int \<Rightarrow> rat" where
  "pow10 k = (if 0 \<le> k then 10 ^ nat k else 1 / 10 ^ nat (- k))"

function ilen :: "int \<Rightarrow> int \<Rightarrow> int" where
  "ilen b p = (if 1 < b \<and> 0 < p then 1 + ilen b (p div b) else 0)"
  by pat_completeness auto
termination
  by (relation "measure (\<lambda>(b, p). nat p)") (auto simp: int_div_less_self)

declare ilen.simps [simp del]

definition ilog2 :: "rat \<Rightarrow> int" where
  "ilog2 x =
     (let (p, q) = quotient_of x;
          e0 = ilen 2 p - ilen 2 q
      in if pow2 e0 \<le> x then e0 else e0 - 1)"

definition ilog10 :: "rat \<Rightarrow> int" where
  "ilog10 x =
     (let (p, q) = quotient_of x;
          e0 = ilen 10 p - ilen 10 q
      in if pow10 e0 \<le> x then e0 else e0 - 1)"

definition round_even :: "rat \<Rightarrow> int" where
  "round_even z =
     (let f = \<lfloor>z\<rfloor>; d = z - of_int f
      in if d < 1 / 2 then f else if 1 / 2 < d then f + 1 else if even f then f else f + 1)"

definition round64 :: "rat \<Rightarrow> rat" where
  "round64 a =
     (let e = max (ilog2 a) (- 1022);
          u = pow2 (e - 52)
      in of_int (round_even (a / u)) * u)"

definition fl64 :: "rat \<Rightarrow> jsnum" where
  "fl64 x =
     (if x = 0 then Finite 0
      else (let r = round64 \<bar>x\<bar>
            in if 1024 \<le> ilog2 r then (if 0 < x then PosInfinity else NegInfinity)
               else Finite (if 0 < x then r else - r)))"

text \<open>
  \<open>a / b\<close> and \<open>a * b\<close> on numbers. The zero of the model is \<open>+0\<close>; the only division of
  the code has an array length that is not zero as its divisor.
\<close>

fun js_div :: "jsnum \<Rightarrow> jsnum \<Rightarrow> jsnum" where
  "js_div NaN b = NaN"
| "js_div a NaN = NaN"
| "js_div (Finite x) (Finite y) =
     (if y = 0 then (if x = 0 then NaN else if 0 < x then PosInfinity else NegInfinity)
      else fl64 (x / y))"
| "js_div (Finite x) b = Finite 0"
| "js_div a (Finite y) =
     (if (a = PosInfinity) = (0 \<le> y) then PosInfinity else NegInfinity)"
| "js_div a b = NaN"

fun js_mul :: "jsnum \<Rightarrow> jsnum \<Rightarrow> jsnum" where
  "js_mul NaN b = NaN"
| "js_mul a NaN = NaN"
| "js_mul (Finite x) (Finite y) = fl64 (x * y)"
| "js_mul (Finite x) b =
     (if x = 0 then NaN else if (b = PosInfinity) = (0 < x) then PosInfinity else NegInfinity)"
| "js_mul a (Finite y) =
     (if y = 0 then NaN else if (a = PosInfinity) = (0 < y) then PosInfinity else NegInfinity)"
| "js_mul a b = (if a = b then PosInfinity else NegInfinity)"

declare js_div.simps [simp del] js_mul.simps [simp del]

subsection \<open>Cell values\<close>

text \<open>
  A property read \<open>pred.Line\<close> gives a string, or \<open>undefined\<close> when the row has no such
  column: \<open>None\<close> is \<open>undefined\<close>.
\<close>

definition js_truthy :: "string option \<Rightarrow> bool" where
  "js_truthy v = (case v of None \<Rightarrow> False | Some s \<Rightarrow> s \<noteq> [])"

text \<open>\<open>v || ''\<close>.\<close>

definition js_or_empty :: "string option \<Rightarrow> string" where
  "js_or_empty v = (case v of None \<Rightarrow> [] | Some s \<Rightarrow> (if s \<noteq> [] then s else []))"

text \<open>String conversion, as a template literal and \<open>parseFloat\<close> apply it to their argument.\<close>

definition js_to_string :: "string option \<Rightarrow> string" where
  "js_to_string v = (case v of None \<Rightarrow> ''undefined'' | Some s \<Rightarrow> s)"

subsection \<open>parseFloat\<close>

text \<open>
  \<open>parseFloat\<close> skips leading white space and reads the longest prefix that is a decimal
  literal: an optional sign, then \<open>Infinity\<close>, or digits with an optional fraction and an
  optional exponent; \<open>NaN\<close> when there is no such prefix. The value is the binary64 number
  nearest to the decimal read. White space is JavaScript's: tab, line feed, vertical
  tab, form feed, carriage return, space, the no-break space, the other space
  separators of Unicode, the line and paragraph separators and the byte order mark.
\<close>

definition utf8_spaces :: "string list" where
  "utf8_spaces =
     [[CHR 0x09], [CHR 0x0A], [CHR 0x0B], [CHR 0x0C], [CHR 0x0D], [CHR 0x20],
      [CHR 0xC2, CHR 0xA0], [CHR 0xE1, CHR 0x9A, CHR 0x80],
      [CHR 0xE2, CHR 0x80, CHR 0x80], [CHR 0xE2, CHR 0x80, CHR 0x81],
      [CHR 0xE2, CHR 0x80, CHR 0x82], [CHR 0xE2, CHR 0x80, CHR 0x83],
      [CHR 0xE2, CHR 0x80, CHR 0x84], [CHR 0xE2, CHR 0x80, CHR 0x85],
      [CHR 0xE2, CHR 0x80, CHR 0x86], [CHR 0xE2, CHR 0x80, CHR 0x87],
      [CHR 0xE2, CHR 0x80, CHR 0x88], [CHR 0xE2, CHR 0x80, CHR 0x89],
      [CHR 0xE2, CHR 0x80, CHR 0x8A], [CHR 0xE2, CHR 0x80, CHR 0xA8],
      [CHR 0xE2, CHR 0x80, CHR 0xA9], [CHR 0xE2, CHR 0x80, CHR 0xAF],
      [CHR 0xE2, CHR 0x81, CHR 0x9F], [CHR 0xE3, CHR 0x80, CHR 0x80],
      [CHR 0xEF, CHR 0xBB, CHR 0xBF]]"

definition space_prefix :: "string \<Rightarrow> nat" where
  "space_prefix s =
     (case List.find (\<lambda>w. take (length w) s = w) utf8_spaces of
        None \<Rightarrow> 0 | Some w \<Rightarrow> length w)"

function skip_space :: "string \<Rightarrow> string" where
  "skip_space s = (if space_prefix s = 0 \<or> s = [] then s else skip_space (drop (space_prefix s) s))"
  by pat_completeness auto
termination
  by (relation "measure length") auto

declare skip_space.simps [simp del]

definition digit_of :: "char \<Rightarrow> nat option" where
  "digit_of = map_of [(CHR ''0'', 0), (CHR ''1'', 1), (CHR ''2'', 2), (CHR ''3'', 3),
     (CHR ''4'', 4), (CHR ''5'', 5), (CHR ''6'', 6), (CHR ''7'', 7), (CHR ''8'', 8),
     (CHR ''9'', 9)]"

definition is_digit :: "char \<Rightarrow> bool" where
  "is_digit c = (digit_of c \<noteq> None)"

definition digits_val :: "string \<Rightarrow> int" where
  "digits_val ds =
     foldl (\<lambda>acc c. case digit_of c of None \<Rightarrow> acc | Some d \<Rightarrow> 10 * acc + int d) 0 ds"

definition exponent_part :: "string \<Rightarrow> int" where
  "exponent_part r =
     (if take 1 r = ''e'' \<or> take 1 r = ''E'' then
        (let r' = drop 1 r;
             eneg = (take 1 r' = ''-'');
             ds = takeWhile is_digit (if take 1 r' = ''-'' \<or> take 1 r' = ''+'' then drop 1 r' else r')
         in if ds = [] then 0 else if eneg then - digits_val ds else digits_val ds)
      else 0)"

definition parseFloat :: "string \<Rightarrow> jsnum" where
  "parseFloat s =
     (let t = skip_space s;
          neg = (take 1 t = ''-'');
          u = (if take 1 t = ''-'' \<or> take 1 t = ''+'' then drop 1 t else t)
      in if take 8 u = ''Infinity'' then (if neg then NegInfinity else PosInfinity)
         else
           (let ip = takeWhile is_digit u;
                r1 = dropWhile is_digit u;
                fp = (if take 1 r1 = ''.'' then takeWhile is_digit (drop 1 r1) else []);
                r2 = (if take 1 r1 = ''.'' then dropWhile is_digit (drop 1 r1) else r1)
            in if ip = [] \<and> fp = [] then NaN
               else fl64 ((if neg then - 1 else 1) * of_int (digits_val (ip @ fp))
                            * pow10 (exponent_part r2 - int (length fp)))))"

subsection \<open>Number to string\<close>

text \<open>
  \<open>${vegasLine}\<close> prints a number as \<open>Number::toString\<close> does: with the digit string \<open>s\<close>
  of the least length \<open>k\<close> and the exponent \<open>n\<close> such that \<open>s * 10 ^ (n - k)\<close> rounds to
  the number (of two such strings the nearer one, of two equally near the even one),
  laid out plainly for \<open>-6 < n \<le> 21\<close> and in exponent notation otherwise. Seventeen
  digits always suffice for a binary64 value; on a rational that is none, the first
  eighteen digits are printed.
\<close>

function dec_digits :: "int \<Rightarrow> string" where
  "dec_digits m = (if m < 10 then [''0123456789'' ! nat m]
                   else dec_digits (m div 10) @ [''0123456789'' ! nat (m mod 10)])"
  by pat_completeness auto
termination
  by (relation "measure nat") (auto simp: int_div_less_self)

declare dec_digits.simps [simp del]

fun shortest_digits :: "nat \<Rightarrow> nat \<Rightarrow> rat \<Rightarrow> int \<Rightarrow> int \<times> int" where
  "shortest_digits 0 k x n = (\<lfloor>x / pow10 (n - int k)\<rfloor>, n)"
| "shortest_digits (Suc fuel) k x n =
     (let w = pow10 (n - int k);
          lo = \<lfloor>x / w\<rfloor>;
          hi = lo + 1;
          ok_lo = (fl64 (of_int lo * w) = Finite x);
          ok_hi = (fl64 (of_int hi * w) = Finite x);
          lo_nearer = (x - of_int lo * w < of_int hi * w - x
                       \<or> x - of_int lo * w = of_int hi * w - x \<and> even lo)
      in if ok_lo \<and> (lo_nearer \<or> \<not> ok_hi) then (lo, n)
         else if ok_hi then (if hi = 10 ^ k then (10 ^ (k - 1), n + 1) else (hi, n))
         else shortest_digits fuel (Suc k) x n)"

definition pos_to_string :: "rat \<Rightarrow> string" where
  "pos_to_string x =
     (let (s, n) = shortest_digits 17 1 x (ilog10 x + 1);
          ds = dec_digits s;
          k = int (length ds)
      in if k \<le> n \<and> n \<le> 21 then ds @ replicate (nat (n - k)) CHR ''0''
         else if 0 < n \<and> n \<le> 21 then take (nat n) ds @ ''.'' @ drop (nat n) ds
         else if - 6 < n \<and> n \<le> 0 then ''0.'' @ replicate (nat (- n)) CHR ''0'' @ ds
         else (if k = 1 then ds else take 1 ds @ ''.'' @ drop 1 ds)
                @ ''e'' @ (if 0 \<le> n - 1 then ''+'' else ''-'') @ dec_digits \<bar>n - 1\<bar>)"

definition js_num_to_string :: "jsnum \<Rightarrow> string" where
  "js_num_to_string a =
     (case a of
        NaN \<Rightarrow> ''NaN''
      | PosInfinity \<Rightarrow> ''Infinity''
      | NegInfinity \<Rightarrow> ''-Infinity''
      | Finite x \<Rightarrow> (if x = 0 then ''0'' else if x < 0 then ''-'' @ pos_to_string (- x)
                      else pos_to_string x))"

subsection \<open>Array.prototype.sort\<close>

text \<open>
  \<open>xs.sort(cmp)\<close> puts \<open>a\<close> after \<open>b\<close> when \<open>cmp(a, b) > 0\<close>; a comparator result that is
  \<open>NaN\<close> counts as \<open>0\<close>. Since ECMAScript 2019 the sort is stable, and for a consistent
  comparator every stable sort returns the same array, so insertion from the right is
  the model.
\<close>

fun insert_by :: "('a \<Rightarrow> 'a \<Rightarrow> jsnum) \<Rightarrow> 'a \<Rightarrow> 'a list \<Rightarrow> 'a list" where
  "insert_by cmp x [] = [x]"
| "insert_by cmp x (y # ys) =
     (if js_gt (cmp x y) (Finite 0) then y # insert_by cmp x ys else x # y # ys)"

definition js_sort :: "('a \<Rightarrow> 'a \<Rightarrow> jsnum) \<Rightarrow> 'a list \<Rightarrow> 'a list" where
  "js_sort cmp xs = foldr (insert_by cmp) xs []"

section \<open>Row Normalizer (api/predictions/route.ts)\<close>

type_synonym SheetRow = "string \<rightharpoonup> string"

text \<open>\<open>row[index]\<close>: \<open>undefined\<close> past the end of the row.\<close>

definition cell :: "string list \<Rightarrow> nat \<Rightarrow> string option" where
  "cell row index = (if index < length row then Some (row ! index) else None)"

text \<open>
  The body of the \<open>map\<close> callback: \<open>headers.forEach((header, index) => obj[header] =
  row[index] || '')\<close> on an object \<open>{}\<close>, read as the finite map of its own properties.
  A later assignment to the same key replaces the earlier one. The key \<open>__proto__\<close> is
  the one accessor that \<open>{}\<close> inherits: assigning a string to it calls the setter, which
  ignores a value that is neither an object nor \<open>null\<close>, and creates no property.
\<close>

definition rowObject :: "string list \<Rightarrow> string list \<Rightarrow> SheetRow" where
  "rowObject headers row =
     fold (\<lambda>(index, header) obj.
             if header = ''__proto__'' then obj
             else obj(header \<mapsto> js_or_empty (cell row index)))
       (enumerate 0 headers) Map.empty"

text \<open>The predictions table: headers in the first row.\<close>

definition predictionRows :: "string list list \<Rightarrow> SheetRow list" where
  "predictionRows predictionsData =
     (if length predictionsData > 1
      then map (rowObject (predictionsData ! 0)) (drop 1 predictionsData)
      else [])"

text \<open>The cover analysis table: a title block of three rows, headers in the fourth.\<close>

definition coverRows :: "string list list \<Rightarrow> SheetRow list" where
  "coverRows coverData =
     (if length coverData > 4
      then map (rowObject (coverData ! 3)) (drop 4 coverData)
      else [])"

section \<open>Opportunity Builder, \<open>processPredictions\<close> (app/page.tsx)\<close>

text \<open>\<open>parseFloat(pred[field]) || 0\<close>, the way every numeric column is read.\<close>

definition numField :: "SheetRow \<Rightarrow> string \<Rightarrow> jsnum" where
  "numField pred field = js_or_zero (parseFloat (js_to_string (pred field)))"

record BettingOpportunity =
  matchup :: string
  favorite :: string
  underdog :: string
  ourLine :: jsnum
  vegasLine :: jsnum
  edge :: jsnum
  betRecommendation :: string
  confidence :: string
  edgeBand :: string

text \<open>The \<open>filter\<close> callback: a usable Vegas line and a parseable edge.\<close>

definition validPrediction :: "SheetRow \<Rightarrow> bool" where
  "validPrediction pred =
     (js_truthy (pred ''Line'') \<and>
      pred ''Line'' \<noteq> Some ''N/A'' \<and>
      pred ''Line'' \<noteq> Some ''No Line Available'' \<and>
      js_truthy (pred ''Edge'') \<and>
      \<not> js_isNaN (parseFloat (js_to_string (pred ''Edge''))))"

text \<open>
  The edge band chain of the \<open>map\<close> callback, from the highest band down: the pair
  (\<open>confidence\<close>, \<open>edgeBand\<close>).
\<close>

definition classifyEdge :: "jsnum \<Rightarrow> string \<times> string" where
  "classifyEdge e =
     (if js_ge e (Finite 12) then (''Elite (58.5%)'', ''12+'')
      else if js_ge e (Finite 9) then (''Strong (70.6%)'', ''9-12'')
      else if js_ge e (Finite 7) then (''Good (66.7%)'', ''7-9'')
      else if js_ge e (Finite 5) then (''Weak (46.2%)'', ''5-7'')
      else if js_ge e (Finite 2) then (''Fade (35.7%)'', ''2-5'')
      else (''Fade (46.7%)'', ''0-2''))"

text \<open>The \<open>map\<close> callback.\<close>

definition toOpportunity :: "SheetRow \<Rightarrow> BettingOpportunity" where
  "toOpportunity pred =
     (let e = numField pred ''Edge'';
          ol = numField pred ''Predicted Difference'';
          vl = numField pred ''Line'';
          betRec =
            (if js_ge e (Finite 2) then
               (if js_gt ol vl
                then ''Take '' @ js_to_string (pred ''Favorite'') @ '' -'' @ js_num_to_string vl
                else ''Take '' @ js_to_string (pred ''Underdog'') @ '' +'' @ js_num_to_string vl)
             else ''Below threshold'')
      in \<lparr> matchup = js_or_empty (pred ''Matchup''),
           favorite = js_or_empty (pred ''Favorite''),
           underdog = js_or_empty (pred ''Underdog''),
           ourLine = ol,
           vegasLine = vl,
           edge = e,
           betRecommendation = betRec,
           confidence = fst (classifyEdge e),
           edgeBand = snd (classifyEdge e) \<rparr>)"

text \<open>\<open>(a, b) => b.edge - a.edge\<close>.\<close>

definition byEdgeDesc :: "BettingOpportunity \<Rightarrow> BettingOpportunity \<Rightarrow> jsnum" where
  "byEdgeDesc a b = js_sub (edge b) (edge a)"

text \<open>
  \<open>predictions\<close> is \<open>None\<close> when the payload has no such array (\<open>!predictions\<close>).
\<close>

definition processPredictions :: "SheetRow list option \<Rightarrow> BettingOpportunity list" where
  "processPredictions predictions =
     (case predictions of
        None \<Rightarrow> []
      | Some preds \<Rightarrow>
          if length preds = 0 then []
          else js_sort byEdgeDesc (map toOpportunity (filter validPrediction preds)))"

section \<open>Performance Aggregator, \<open>calculatePerformance\<close> (app/page.tsx)\<close>

text \<open>
  The three counts are array lengths. \<open>winRate\<close> is the number \<open>(wins / validBets.length)
  * 100\<close>: the quotient of two lengths rounded to binary64, and its product with 100
  rounded again. \<open>currentOpps\<close> is whatever number the caller passes.
\<close>

record PerformanceMetrics =
  totalBets :: nat
  wins :: nat
  losses :: nat
  winRate :: jsnum
  currentWeekOpportunities :: jsnum

definition isWin :: "SheetRow \<Rightarrow> bool" where
  "isWin bet = (bet ''Result'' = Some ''WIN'')"

definition isLoss :: "SheetRow \<Rightarrow> bool" where
  "isLoss bet = (bet ''Result'' = Some ''LOSS'')"

definition calculatePerformance :: "SheetRow list option \<Rightarrow> jsnum \<Rightarrow> PerformanceMetrics" where
  "calculatePerformance coverAnalysis currentOpps =
     (case coverAnalysis of
        None \<Rightarrow> \<lparr> totalBets = 0, wins = 0, losses = 0, winRate = Finite 0,
                  currentWeekOpportunities = currentOpps \<rparr>
      | Some cover \<Rightarrow>
          if length cover = 0
          then \<lparr> totalBets = 0, wins = 0, losses = 0, winRate = Finite 0,
                 currentWeekOpportunities = currentOpps \<rparr>
          else
            (let validBets = filter (\<lambda>bet. isWin bet \<or> isLoss bet) cover;
                 w = length (filter isWin validBets);
                 l = length (filter isLoss validBets);
                 rate = (if length validBets > 0
                         then js_mul (js_div (Finite (of_nat w)) (Finite (of_nat (length validBets))))
                                (Finite 100)
                         else Finite 0)
             in \<lparr> totalBets = length validBets, wins = w, losses = l, winRate = rate,
                  currentWeekOpportunities = currentOpps \<rparr>))"

section \<open>The dashboards that compute in the component body\<close>

text \<open>
  Two further dashboards build the list inline, as \<open>bettingOpps\<close>: one with a slider for
  \<open>minEdge\<close> (initially 2.0), one with tabs and \<open>minEdge\<close> fixed at 2.0. Both map every
  row with a usable line, then keep the rows with \<open>edge >= minEdge\<close>, then sort. They
  differ in the confidence labels only. A third copy of \<open>processPredictions\<close> differs
  from the one above in its confidence labels only.

  The mapped object is \<open>{...pred, betRec, betType, edge, confidence, vegasLine, edgeBand,
  bandEmoji}\<close>: \<open>spread\<close> holds the copied row, and the computed fields (which win over a
  column of the same name) carry the prefix \<open>bet_\<close> where \<open>BettingOpportunity\<close> has the
  name already. Emoji are UTF-8 byte strings.
\<close>

record DashboardBet =
  spread :: SheetRow
  betRec :: string
  betType :: string
  bet_edge :: jsnum
  bet_confidence :: string
  bet_vegasLine :: jsnum
  bet_edgeBand :: string
  bandEmoji :: string

definition hasLine :: "SheetRow \<Rightarrow> bool" where
  "hasLine p =
     (js_truthy (p ''Line'') \<and>
      p ''Line'' \<noteq> Some ''N/A'' \<and>
      p ''Line'' \<noteq> Some ''No Line Available'')"

text \<open>The band chains, from the lowest band up: (\<open>edgeBand\<close>, \<open>bandEmoji\<close>, \<open>confidence\<close>).\<close>

definition classifySlider :: "jsnum \<Rightarrow> string \<times> string \<times> string" where
  "classifySlider e =
     (if js_lt e (Finite 2) then (''0-2'', [CHR 0xF0, CHR 0x9F, CHR 0x94, CHR 0xB4], ''Avoid (40%)'')
      else if js_lt e (Finite 5) then (''2-5'', [CHR 0xF0, CHR 0x9F, CHR 0x9F, CHR 0xA1], ''Weak (37%)'')
      else if js_lt e (Finite 7) then (''5-7'', [CHR 0xF0, CHR 0x9F, CHR 0x9F, CHR 0xA2], ''Good (75%)'')
      else if js_lt e (Finite 9) then (''7-9'', [CHR 0xF0, CHR 0x9F, CHR 0x94, CHR 0xA5], ''Excellent (100%)'')
      else if js_lt e (Finite 12) then (''9-12'', [CHR 0xF0, CHR 0x9F, CHR 0x92, CHR 0x8E], ''Strong (60%)'')
      else (''12+'', [CHR 0xF0, CHR 0x9F, CHR 0x91, CHR 0x91], ''Elite (64%)''))"

definition classifyTabbed :: "jsnum \<Rightarrow> string \<times> string \<times> string" where
  "classifyTabbed e =
     (if js_lt e (Finite 2) then (''0-2'', [CHR 0xF0, CHR 0x9F, CHR 0x94, CHR 0xB4], ''Fade (33.3%)'')
      else if js_lt e (Finite 5) then (''2-5'', [CHR 0xF0, CHR 0x9F, CHR 0x9F, CHR 0xA1], ''Fade (33.3%)'')
      else if js_lt e (Finite 7) then (''5-7'', [CHR 0xF0, CHR 0x9F, CHR 0x9F, CHR 0xA2], ''Good (66.7%)'')
      else if js_lt e (Finite 9) then (''7-9'', [CHR 0xF0, CHR 0x9F, CHR 0x94, CHR 0xA5], ''Strong (66.7%)'')
      else if js_lt e (Finite 12) then (''9-12'', [CHR 0xF0, CHR 0x9F, CHR 0x92, CHR 0x8E], ''Strong (66.7%)'')
      else (''12+'', [CHR 0xF0, CHR 0x9F, CHR 0x91, CHR 0x91], ''Elite (71.4%)''))"

text \<open>The \<open>map\<close> callback, for a band chain \<open>cls\<close> and the threshold in force.\<close>

definition toBet :: "(jsnum \<Rightarrow> string \<times> string \<times> string) \<Rightarrow> jsnum \<Rightarrow> SheetRow \<Rightarrow> DashboardBet" where
  "toBet cls minEdge p =
     (let e = numField p ''Edge'';
          predDiff = numField p ''Predicted Difference'';
          vl = numField p ''Line'';
          (rec, ty) =
            (if js_ge e minEdge then
               (if js_gt predDiff vl
                then (''Take '' @ js_to_string (p ''Favorite'') @ '' -'' @ js_num_to_string vl,
                      ''Favorite'')
                else (''Take '' @ js_to_string (p ''Underdog'') @ '' +'' @ js_num_to_string vl,
                      ''Underdog''))
             else ([], []));
          (band, emoji, conf) = cls e
      in \<lparr> spread = p, betRec = rec, betType = ty, bet_edge = e, bet_confidence = conf,
           bet_vegasLine = vl, bet_edgeBand = band, bandEmoji = emoji \<rparr>)"

definition byBetEdgeDesc :: "DashboardBet \<Rightarrow> DashboardBet \<Rightarrow> jsnum" where
  "byBetEdgeDesc a b = js_sub (bet_edge b) (bet_edge a)"

definition buildBets ::
  "(jsnum \<Rightarrow> string \<times> string \<times> string) \<Rightarrow> jsnum \<Rightarrow> SheetRow list \<Rightarrow> DashboardBet list" where
  "buildBets cls minEdge predictions =
     js_sort byBetEdgeDesc
       (filter (\<lambda>bet. js_ge (bet_edge bet) minEdge)
          (map (toBet cls minEdge) (filter hasLine predictions)))"

text \<open>The slider dashboard; \<open>minEdge\<close> is component state.\<close>

definition bettingOpps :: "jsnum \<Rightarrow> SheetRow list \<Rightarrow> DashboardBet list" where
  "bettingOpps minEdge predictions = buildBets classifySlider minEdge predictions"

text \<open>The tabbed dashboard; \<open>const minEdge = 2.0\<close>.\<close>

definition bettingOppsTabbed :: "SheetRow list \<Rightarrow> DashboardBet list" where
  "bettingOppsTabbed predictions = buildBets classifyTabbed (Finite 2) predictions"

text \<open>
  The inline performance figures of both dashboards: (\<open>totalBets\<close>, \<open>wins\<close>, \<open>winRate\<close>).
\<close>

definition coverSummary :: "SheetRow list \<Rightarrow> nat \<times> nat \<times> jsnum" where
  "coverSummary coverAnalysis =
     (let validCoverGames = filter (\<lambda>game. isWin game \<or> isLoss game) coverAnalysis;
          total = length validCoverGames;
          w = length (filter isWin validCoverGames);
          rate = (if total > 0
                  then js_mul (js_div (Finite (of_nat w)) (Finite (of_nat total))) (Finite 100)
                  else Finite 0)
      in (total, w, rate))"

section \<open>Sample rows\<close>

text \<open>
  A prediction row with the six columns of the sheet, and an outcome row with its result,
  for the concrete instances below.
\<close>

definition sampleRow :: "string \<Rightarrow> string \<Rightarrow> string \<Rightarrow> string \<Rightarrow> SheetRow" where
  "sampleRow m d l e =
     [''Matchup'' \<mapsto> m, ''Favorite'' \<mapsto> ''A'', ''Underdog'' \<mapsto> ''B'',
      ''Predicted Difference'' \<mapsto> d, ''Line'' \<mapsto> l, ''Edge'' \<mapsto> e]"

definition outcomeRow :: "string \<Rightarrow> string \<Rightarrow> SheetRow" where
  "outcomeRow g r = [''Game'' \<mapsto> g, ''Our Bet'' \<mapsto> ''A -3'', ''Result'' \<mapsto> r]"

section \<open>Properties\<close>

subsection \<open>Numbers and the sort\<close>

lemma js_sub_pos: "js_gt (js_sub b a) (Finite 0) = js_lt a b"
  by (cases a; cases b) (simp_all add: js_gt_def)

lemma js_lt_irrefl: "\<not> js_lt a a"
  by (cases a) simp_all

lemma js_ge_trans: "js_ge a b \<Longrightarrow> js_ge b c \<Longrightarrow> js_ge a c"
  by (cases a; cases b; cases c) (simp_all add: js_ge_def)

lemma js_lt_imp_ge: "js_lt a b \<Longrightarrow> js_ge b a"
  by (cases a; cases b) (simp_all add: js_ge_def)

lemma not_js_lt_imp_ge: "a \<noteq> NaN \<Longrightarrow> b \<noteq> NaN \<Longrightarrow> \<not> js_lt a b \<Longrightarrow> js_ge a b"
  by (simp add: js_ge_def)

lemma js_or_zero_not_NaN: "js_or_zero a \<noteq> NaN"
  by (simp add: js_or_zero_def)

lemma set_insert_by: "set (insert_by cmp x ys) = insert x (set ys)"
  by (induction ys) auto

lemma mset_insert_by: "mset (insert_by cmp x ys) = add_mset x (mset ys)"
  by (induction ys) auto

lemma mset_js_sort: "mset (js_sort cmp xs) = mset xs"
  by (induction xs) (simp_all add: js_sort_def mset_insert_by)

lemma set_js_sort: "set (js_sort cmp xs) = set xs"
  using mset_js_sort [of cmp xs] by (metis set_mset_mset)

lemma length_js_sort: "length (js_sort cmp xs) = length xs"
  using mset_js_sort [of cmp xs] by (metis size_mset)

lemma js_sort_Cons: "js_sort cmp (x # xs) = insert_by cmp x (js_sort cmp xs)"
  by (simp add: js_sort_def)

lemma sorted_insert_by:
  assumes "\<And>a b. cmp a b = js_sub (key b) (key a)"
    and "key x \<noteq> NaN" and "\<forall>y\<in>set ys. key y \<noteq> NaN"
    and "sorted_wrt (\<lambda>a b. js_ge (key a) (key b)) ys"
  shows "sorted_wrt (\<lambda>a b. js_ge (key a) (key b)) (insert_by cmp x ys)"
  using assms(3,4)
proof (induction ys)
  case Nil
  then show ?case by simp
next
  case (Cons y ys)
  show ?case
  proof (cases "js_lt (key x) (key y)")
    case True
    then have "js_ge (key y) (key x)" by (rule js_lt_imp_ge)
    with True Cons show ?thesis
      by (auto simp: assms(1) js_sub_pos set_insert_by)
  next
    case False
    with Cons.prems assms(2) have xy: "js_ge (key x) (key y)"
      by (simp add: not_js_lt_imp_ge)
    then have "\<forall>z\<in>set ys. js_ge (key x) (key z)"
      using Cons.prems(2) by (auto intro: js_ge_trans)
    with False xy Cons.prems show ?thesis
      by (simp add: assms(1) js_sub_pos)
  qed
qed

lemma sorted_js_sort:
  assumes "\<And>a b. cmp a b = js_sub (key b) (key a)"
    and "\<forall>y\<in>set xs. key y \<noteq> NaN"
  shows "sorted_wrt (\<lambda>a b. js_ge (key a) (key b)) (js_sort cmp xs)"
  using assms(2)
proof (induction xs)
  case Nil
  then show ?case by (simp add: js_sort_def)
next
  case (Cons x xs)
  then show ?case
    by (simp add: js_sort_Cons sorted_insert_by [OF assms(1)] set_js_sort)
qed

lemma filter_insert_by:
  assumes "\<And>a b. cmp a b = js_sub (key b) (key a)"
  shows "filter (\<lambda>y. key y = k) (insert_by cmp x ys) = filter (\<lambda>y. key y = k) (x # ys)"
proof (induction ys)
  case Nil
  then show ?case by simp
next
  case (Cons y ys)
  show ?case
  proof (cases "js_lt (key x) (key y)")
    case True
    then have "key x \<noteq> key y" using js_lt_irrefl by metis
    with True Cons show ?thesis
      by (auto simp: assms js_sub_pos)
  next
    case False
    then show ?thesis by (simp add: assms js_sub_pos)
  qed
qed

lemma js_sort_stable:
  assumes "\<And>a b. cmp a b = js_sub (key b) (key a)"
  shows "filter (\<lambda>y. key y = k) (js_sort cmp xs) = filter (\<lambda>y. key y = k) xs"
proof (induction xs)
  case Nil
  then show ?case by (simp add: js_sort_def)
next
  case (Cons x xs)
  then show ?case
    by (simp add: js_sort_Cons filter_insert_by [OF assms])
qed

subsection \<open>Rounding\<close>

lemma pow2_powi: "pow2 k = 2 powi k"
  by (simp add: pow2_def power_int_def power_one_over inverse_eq_divide)

lemma pow2_pos: "0 < pow2 k"
  by (simp add: pow2_powi)

lemma pow2_add: "pow2 (i + j) = pow2 i * pow2 j"
  by (simp add: pow2_powi power_int_add)

lemma pow2_mono: "i \<le> j \<Longrightarrow> pow2 i \<le> pow2 j"
  by (simp add: pow2_powi power_int_increasing)

lemma pow2_less_imp: "pow2 i < pow2 j \<Longrightarrow> i < j"
  using pow2_mono [of j i] by (cases "i < j") auto

lemma pow2_nat: "pow2 (int n) = 2 ^ n"
  by (simp add: pow2_def)

lemma ilen_floorlog: "1 < b \<Longrightarrow> ilen b p = int (floorlog (nat b) (nat p))"
proof (induction b p rule: ilen.induct)
  case (1 b p)
  show ?case
  proof (cases "0 < p")
    case True
    with "1.prems" have "ilen b p = 1 + ilen b (p div b)"
      by (subst ilen.simps) simp
    also have "ilen b (p div b) = int (floorlog (nat b) (nat (p div b)))"
      using "1.IH" "1.prems" True by simp
    also have "nat (p div b) = nat p div nat b"
      using True "1.prems" by (simp add: nat_div_distrib)
    also have "1 + int (floorlog (nat b) (nat p div nat b)) = int (floorlog (nat b) (nat p))"
      using True "1.prems" by (subst (2) compute_floorlog) simp
    finally show ?thesis .
  next
    case False
    then have "ilen b p = 0" by (subst ilen.simps) simp
    with False show ?thesis by (simp add: floorlog_eq_zero_iff)
  qed
qed

lemma ilog2_lower:
  assumes "0 < x"
  shows "pow2 (ilog2 x) \<le> x"
proof -
  obtain p q where pq: "quotient_of x = (p, q)" by (cases "quotient_of x")
  then have q: "0 < q" and x: "x = of_int p / of_int q"
    by (simp_all add: quotient_of_denom_pos quotient_of_div)
  from assms q x have p: "0 < p" by (simp add: zero_less_divide_iff)
  let ?fp = "floorlog 2 (nat p)" and ?fq = "floorlog 2 (nat q)"
  let ?e0 = "int ?fp - int ?fq"
  show ?thesis
  proof (cases "pow2 ?e0 \<le> x")
    case True
    then show ?thesis by (simp add: ilog2_def pq ilen_floorlog)
  next
    case False
    from p have "2 ^ (?fp - 1) \<le> nat p" using floorlog_bounds [of "nat p" 2] by simp
    then have "int (2 ^ (?fp - 1)) \<le> p" using p by linarith
    then have lo: "(2::rat) ^ (?fp - 1) \<le> of_int p"
      by (metis of_int_le_iff of_int_of_nat_eq of_nat_numeral of_nat_power)
    from q have "nat q < 2 ^ ?fq" using floorlog_bounds [of "nat q" 2] by simp
    then have "q < int (2 ^ ?fq)" using q by linarith
    then have hi: "of_int q \<le> (2::rat) ^ ?fq"
      by (metis less_imp_le of_int_le_iff of_int_of_nat_eq of_nat_numeral of_nat_power)
    from p have fp: "1 \<le> ?fp" using floorlog_bounds [of "nat p" 2]
      by (metis Suc_leI floorlog_eq_zero_iff neq0_conv not_less one_less_numeral_iff semiring_norm(76) zero_less_nat_eq One_nat_def)
    have "?e0 - 1 = int (?fp - 1) + (- int ?fq)" using fp by simp
    then have "pow2 (?e0 - 1) = pow2 (int (?fp - 1)) * pow2 (- int ?fq)"
      by (simp only: pow2_add)
    also have "\<dots> = 2 ^ (?fp - 1) / 2 ^ ?fq"
      by (simp add: pow2_nat) (simp add: pow2_def)
    also have "\<dots> \<le> of_int p / of_int q"
      using lo hi q p by (intro frac_le) simp_all
    finally have "pow2 (?e0 - 1) \<le> x" by (simp only: x)
    moreover have "ilog2 x = ?e0 - 1" using False by (simp add: ilog2_def pq ilen_floorlog)
    ultimately show ?thesis by simp
  qed
qed

lemma round_even_le: "z \<le> of_int m \<Longrightarrow> round_even z \<le> m"
proof -
  assume z: "z \<le> of_int m"
  then have f: "\<lfloor>z\<rfloor> \<le> m" by (metis floor_mono floor_of_int)
  show ?thesis
  proof (cases "\<lfloor>z\<rfloor> = m")
    case True
    then have "of_int m \<le> z" by (metis of_int_floor_le)
    with z have "z = of_int m" by simp
    then show ?thesis by (simp add: round_even_def)
  next
    case False
    with f have "\<lfloor>z\<rfloor> + 1 \<le> m" by simp
    with f show ?thesis by (simp add: round_even_def Let_def)
  qed
qed

lemma round_even_nonneg: "0 \<le> z \<Longrightarrow> 0 \<le> round_even z"
  by (simp add: round_even_def Let_def)

lemma round_even_err: "\<bar>of_int (round_even z) - z\<bar> \<le> 1 / 2"
proof -
  have "of_int \<lfloor>z\<rfloor> \<le> z" "z < of_int \<lfloor>z\<rfloor> + 1" by linarith+
  then show ?thesis by (auto simp: round_even_def Let_def abs_le_iff)
qed

lemma round64_bounds:
  assumes "0 < x" and "x \<le> of_int b" and "of_int b < pow2 (k + 1)"
    and "- 1022 \<le> k" and "k \<le> 52"
  shows "0 \<le> round64 x \<and> round64 x \<le> of_int b \<and> \<bar>round64 x - x\<bar> \<le> pow2 (k - 53)"
proof -
  let ?e = "max (ilog2 x) (- 1022)"
  let ?u = "pow2 (?e - 52)"
  let ?z = "x / ?u"
  have "pow2 (ilog2 x) \<le> x" using assms(1) by (rule ilog2_lower)
  also have "\<dots> < pow2 (k + 1)" using assms(2,3) by simp
  finally have "ilog2 x < k + 1" by (rule pow2_less_imp)
  with assms(4) have e: "?e \<le> k" by simp
  have u: "0 < ?u" by (rule pow2_pos)
  have r: "round64 x = of_int (round_even ?z) * ?u"
    by (simp add: round64_def Let_def)
  have inv: "pow2 (52 - ?e) * ?u = 1"
    by (simp add: pow2_add [symmetric]) (simp add: pow2_def)
  have nn: "0 \<le> 52 - ?e" using e assms(5) by simp
  then have grid: "pow2 (52 - ?e) = of_int (2 ^ nat (52 - ?e))"
    by (simp add: pow2_def)
  have "?z = x * pow2 (52 - ?e)"
    using inv u by (simp add: field_simps)
  also have "\<dots> \<le> of_int b * pow2 (52 - ?e)"
    using assms(2) pow2_pos [of "52 - ?e"] by (simp add: mult_right_mono)
  also have "\<dots> = of_int (b * 2 ^ nat (52 - ?e))"
    by (simp add: grid)
  finally have "round_even ?z \<le> b * 2 ^ nat (52 - ?e)" by (rule round_even_le)
  then have "of_int (round_even ?z) * ?u \<le> of_int (b * 2 ^ nat (52 - ?e)) * ?u"
    using u by (simp only: mult_le_cancel_right_pos of_int_le_iff)
  also have "\<dots> = of_int b * (pow2 (52 - ?e) * ?u)"
    by (simp add: grid)
  finally have upper: "round64 x \<le> of_int b" by (simp add: r inv)
  have "0 \<le> ?z" using assms(1) u by simp
  then have "0 \<le> round_even ?z" by (rule round_even_nonneg)
  then have lower: "0 \<le> round64 x" using u by (simp add: r)
  have "round64 x - x = (of_int (round_even ?z) - ?z) * ?u"
    using u by (simp add: r left_diff_distrib)
  then have "\<bar>round64 x - x\<bar> = \<bar>of_int (round_even ?z) - ?z\<bar> * ?u"
    using u by (simp only: abs_mult abs_of_pos)
  also have "\<dots> \<le> (1 / 2) * ?u"
    using u round_even_err [of ?z] by (simp only: mult_le_cancel_right_pos)
  also have "\<dots> = pow2 (?e - 53)"
    using pow2_add [of "?e - 53" 1] by (simp add: pow2_def [of 1])
  also have "\<dots> \<le> pow2 (k - 53)" using e by (intro pow2_mono) simp
  finally show ?thesis using upper lower by simp
qed

lemma ilog2_zero: "ilog2 0 = - 2"
  by code_simp

lemma ilog2_less:
  assumes "0 \<le> r" and "r < pow2 j" and "j \<le> 1024"
  shows "ilog2 r < 1024"
proof (cases "r = 0")
  case True
  then show ?thesis by (simp add: ilog2_zero)
next
  case False
  with assms(1) have "0 < r" by simp
  then have "pow2 (ilog2 r) \<le> r" by (rule ilog2_lower)
  also note assms(2)
  finally have "ilog2 r < j" by (rule pow2_less_imp)
  with assms(3) show ?thesis by simp
qed

lemma fl64_bounds:
  assumes "0 \<le> x" and "x \<le> of_int b" and "of_int b < pow2 (k + 1)"
    and "- 1022 \<le> k" and "k \<le> 52"
  shows "\<exists>r. fl64 x = Finite r \<and> 0 \<le> r \<and> r \<le> of_int b \<and> \<bar>r - x\<bar> \<le> pow2 (k - 53)"
proof (cases "x = 0")
  case True
  then show ?thesis using assms(2) pow2_pos [of "k - 53"] by (simp add: fl64_def less_imp_le)
next
  case False
  with assms(1) have x: "0 < x" by simp
  note b = round64_bounds [OF x assms(2-5)]
  from b assms(3) have "round64 x < pow2 (k + 1)" by simp
  with b have "ilog2 (round64 x) < 1024" using assms(5) by (intro ilog2_less [of _ "k + 1"]) simp_all
  then have "\<not> 1024 \<le> ilog2 (round64 x)" by simp
  with x b show ?thesis by (simp add: fl64_def Let_def)
qed

subsection \<open>Edge Classifier\<close>

lemma classifyEdge_band:
  "snd (classifyEdge (Finite x)) =
     (if 12 \<le> x then ''12+'' else if 9 \<le> x then ''9-12'' else if 7 \<le> x then ''7-9''
      else if 5 \<le> x then ''5-7'' else if 2 \<le> x then ''2-5'' else ''0-2'')"
  by (simp add: classifyEdge_def js_ge_def not_less)

lemma classifySlider_band: "fst (classifySlider (Finite x)) = snd (classifyEdge (Finite x))"
  by (simp add: classifyEdge_def classifySlider_def js_ge_def not_less)

lemma classifyTabbed_band: "fst (classifyTabbed (Finite x)) = snd (classifyEdge (Finite x))"
  by (simp add: classifyEdge_def classifyTabbed_def js_ge_def not_less)

text \<open>
  C1. Every finite edge \<open>x \<ge> 0\<close> gets exactly one of the six bands, and the bands are the
  half-open intervals \<open>[0, 2)\<close>, \<open>[2, 5)\<close>, \<open>[5, 7)\<close>, \<open>[7, 9)\<close>, \<open>[9, 12)\<close> and
  \<open>[12, \<infinity>)\<close>. The chain of \<open>processPredictions\<close> (tested from the top down) and the
  chains of the two inline dashboards (tested from the bottom up) give the same band. In
  particular 1.999 is in \<open>0-2\<close>, 2.0 in \<open>2-5\<close>, 11.999 in \<open>9-12\<close> and 12.0 in \<open>12+\<close>.
\<close>

theorem edge_bands_partition:
  assumes "0 \<le> x"
  shows "snd (classifyEdge (Finite x))
           \<in> {''12+'', ''9-12'', ''7-9'', ''5-7'', ''2-5'', ''0-2''}
       \<and> (snd (classifyEdge (Finite x)) = ''0-2'' \<longleftrightarrow> 0 \<le> x \<and> x < 2)
       \<and> (snd (classifyEdge (Finite x)) = ''2-5'' \<longleftrightarrow> 2 \<le> x \<and> x < 5)
       \<and> (snd (classifyEdge (Finite x)) = ''5-7'' \<longleftrightarrow> 5 \<le> x \<and> x < 7)
       \<and> (snd (classifyEdge (Finite x)) = ''7-9'' \<longleftrightarrow> 7 \<le> x \<and> x < 9)
       \<and> (snd (classifyEdge (Finite x)) = ''9-12'' \<longleftrightarrow> 9 \<le> x \<and> x < 12)
       \<and> (snd (classifyEdge (Finite x)) = ''12+'' \<longleftrightarrow> 12 \<le> x)
       \<and> fst (classifySlider (Finite x)) = snd (classifyEdge (Finite x))
       \<and> fst (classifyTabbed (Finite x)) = snd (classifyEdge (Finite x))
       \<and> snd (classifyEdge (Finite (1999 / 1000))) = ''0-2''
       \<and> snd (classifyEdge (Finite 2)) = ''2-5''
       \<and> snd (classifyEdge (Finite (11999 / 1000))) = ''9-12''
       \<and> snd (classifyEdge (Finite 12)) = ''12+''"
  using assms
  by (simp add: classifyEdge_band classifySlider_band classifyTabbed_band)

theorem edge_bands_partition_witness:
  "snd (classifyEdge (Finite (13 / 2))) = ''5-7'' \<and> fst (classifySlider (Finite (13 / 2))) = ''5-7''"
  using edge_bands_partition [of "13 / 2"] by simp

subsection \<open>Opportunity Builder\<close>

lemma numField_not_NaN: "numField p f \<noteq> NaN"
  by (simp add: numField_def js_or_zero_not_NaN)

lemma toOpportunity_fields:
  "edge (toOpportunity p) = numField p ''Edge''"
  "ourLine (toOpportunity p) = numField p ''Predicted Difference''"
  "vegasLine (toOpportunity p) = numField p ''Line''"
  by (simp_all add: toOpportunity_def Let_def)

lemma toBet_fields:
  "bet_edge (toBet cls m p) = numField p ''Edge''"
  "bet_vegasLine (toBet cls m p) = numField p ''Line''"
  "spread (toBet cls m p) = p"
  by (simp_all add: toBet_def Let_def split: prod.splits)

lemma processPredictions_Some:
  "processPredictions (Some preds) = js_sort byEdgeDesc (map toOpportunity (filter validPrediction preds))"
  by (cases preds) (simp_all add: processPredictions_def js_sort_def)

lemma sorted_processPredictions:
  "sorted_wrt (\<lambda>a b. js_ge (edge a) (edge b)) (processPredictions (Some preds))"
  unfolding processPredictions_Some
  by (rule sorted_js_sort [where key = edge])
     (auto simp: byEdgeDesc_def toOpportunity_fields numField_not_NaN)

lemma stable_processPredictions:
  "filter (\<lambda>opp. edge opp = k) (processPredictions (Some preds))
     = filter (\<lambda>opp. edge opp = k) (map toOpportunity (filter validPrediction preds))"
  unfolding processPredictions_Some
  by (rule js_sort_stable [where key = edge]) (simp add: byEdgeDesc_def)

lemma length_processPredictions: "length (processPredictions (Some preds)) \<le> length preds"
  by (simp add: processPredictions_Some length_js_sort)

lemma sorted_buildBets:
  "sorted_wrt (\<lambda>a b. js_ge (bet_edge a) (bet_edge b)) (buildBets cls m preds)"
  unfolding buildBets_def
  by (rule sorted_js_sort [where key = bet_edge])
     (auto simp: byBetEdgeDesc_def toBet_fields numField_not_NaN)

lemma stable_buildBets:
  "filter (\<lambda>bet. bet_edge bet = k) (buildBets cls m preds)
     = filter (\<lambda>bet. bet_edge bet = k)
         (filter (\<lambda>bet. js_ge (bet_edge bet) m) (map (toBet cls m) (filter hasLine preds)))"
  unfolding buildBets_def
  by (rule js_sort_stable [where key = bet_edge]) (simp add: byBetEdgeDesc_def)

lemma length_buildBets: "length (buildBets cls m preds) \<le> length preds"
proof -
  have "length (buildBets cls m preds) \<le> length (map (toBet cls m) (filter hasLine preds))"
    unfolding buildBets_def length_js_sort by (rule length_filter_le)
  also have "\<dots> \<le> length preds" by simp
  finally show ?thesis .
qed

text \<open>
  C3. The output is no longer than the input, it is sorted by edge in descending order, and
  the sort is stable: for every edge value \<open>k\<close>, the output records with edge \<open>k\<close> are
  the mapped records with edge \<open>k\<close> in the order of their rows in the input. This holds
  for \<open>processPredictions\<close> and for both inline dashboards, at any threshold.
\<close>

theorem builder_sorted_stable:
  "length (processPredictions (Some preds)) \<le> length preds
   \<and> sorted_wrt (\<lambda>a b. js_ge (edge a) (edge b)) (processPredictions (Some preds))
   \<and> filter (\<lambda>opp. edge opp = k) (processPredictions (Some preds))
       = filter (\<lambda>opp. edge opp = k) (map toOpportunity (filter validPrediction preds))
   \<and> length (bettingOpps minEdge preds) \<le> length preds
   \<and> sorted_wrt (\<lambda>a b. js_ge (bet_edge a) (bet_edge b)) (bettingOpps minEdge preds)
   \<and> filter (\<lambda>bet. bet_edge bet = k) (bettingOpps minEdge preds)
       = filter (\<lambda>bet. bet_edge bet = k)
           (filter (\<lambda>bet. js_ge (bet_edge bet) minEdge)
              (map (toBet classifySlider minEdge) (filter hasLine preds)))
   \<and> length (bettingOppsTabbed preds) \<le> length preds
   \<and> sorted_wrt (\<lambda>a b. js_ge (bet_edge a) (bet_edge b)) (bettingOppsTabbed preds)
   \<and> filter (\<lambda>bet. bet_edge bet = k) (bettingOppsTabbed preds)
       = filter (\<lambda>bet. bet_edge bet = k)
           (filter (\<lambda>bet. js_ge (bet_edge bet) (Finite 2))
              (map (toBet classifyTabbed (Finite 2)) (filter hasLine preds)))"
  unfolding bettingOpps_def bettingOppsTabbed_def
  using length_processPredictions sorted_processPredictions stable_processPredictions
    length_buildBets sorted_buildBets stable_buildBets
  by blast

lemma not_validPrediction:
  assumes "r ''Line'' = None \<or> r ''Line'' = Some [] \<or> r ''Line'' = Some ''N/A''
           \<or> r ''Line'' = Some ''No Line Available''"
  shows "\<not> validPrediction r" and "\<not> hasLine r"
  using assms by (auto simp: validPrediction_def hasLine_def js_truthy_def)

text \<open>
  C4. A row whose \<open>Line\<close> is missing, empty, \<open>N/A\<close> or \<open>No Line Available\<close> contributes
  nothing: whatever its other fields and wherever it stands, the output is the output
  for the input without that row; alone, it gives the empty output.
\<close>

theorem unusable_line_excluded:
  assumes "r ''Line'' = None \<or> r ''Line'' = Some [] \<or> r ''Line'' = Some ''N/A''
           \<or> r ''Line'' = Some ''No Line Available''"
  shows "processPredictions (Some (xs @ r # ys)) = processPredictions (Some (xs @ ys))
       \<and> processPredictions (Some [r]) = []
       \<and> bettingOpps minEdge (xs @ r # ys) = bettingOpps minEdge (xs @ ys)
       \<and> bettingOppsTabbed (xs @ r # ys) = bettingOppsTabbed (xs @ ys)"
  using not_validPrediction [of r] assms
  by (simp add: processPredictions_Some bettingOpps_def bettingOppsTabbed_def buildBets_def
      js_sort_def)

text \<open>The strings and numbers of the concrete instances below.\<close>

lemma parse_samples:
  "parseFloat ''0'' = Finite 0"
  "parseFloat ''1'' = Finite 1"
  "parseFloat ''3'' = Finite 3"
  "parseFloat ''4'' = Finite 4"
  "parseFloat ''6'' = Finite 6"
  "parseFloat ''7'' = Finite 7"
  "parseFloat ''10'' = Finite 10"
  "parseFloat ''1.5'' = Finite (3 / 2)"
  "parseFloat ''9.5'' = Finite (19 / 2)"
  "parseFloat ''10.5'' = Finite (21 / 2)"
  "parseFloat ''abc'' = NaN"
  "parseFloat ''TBD'' = NaN"
  "parseFloat ''n/a'' = NaN"
  "parseFloat ''N/A'' = NaN"
  "parseFloat ''undefined'' = NaN"
  "parseFloat [] = NaN"
  by code_simp+

lemma print_samples:
  "js_num_to_string (Finite 3) = ''3''"
  "js_num_to_string (Finite (21 / 2)) = ''10.5''"
  by code_simp+

text \<open>Rounding in the parse, white space beyond ASCII, and the shortest digits in print.\<close>

lemma rounding_samples:
  "parseFloat ''0.1'' = Finite (3602879701896397 / 36028797018963968)"
  "parseFloat ''1.99999999999999999999'' = Finite 2"
  "parseFloat [CHR 0xC2, CHR 0xA0, CHR ''4''] = Finite 4"
  "js_num_to_string (Finite (3602879701896397 / 36028797018963968)) = ''0.1''"
  by code_simp+

lemmas parse_defs = parse_samples js_to_string_def

lemmas builder_defs = validPrediction_def hasLine_def js_truthy_def js_isNaN_def
  toOpportunity_def toBet_def numField_def js_or_zero_def js_or_empty_def js_ge_def js_gt_def
  classifyEdge_def classifySlider_def classifyTabbed_def Let_def

lemma set_processPredictions:
  "set (processPredictions (Some preds)) = toOpportunity ` {p \<in> set preds. validPrediction p}"
  by (simp add: processPredictions_Some set_js_sort)

lemma set_buildBets:
  "set (buildBets cls m preds)
     = {bet \<in> toBet cls m ` {p \<in> set preds. hasLine p}. js_ge (bet_edge bet) m}"
  by (auto simp: buildBets_def set_js_sort)

lemma js_ge_iff_not_lt: "a \<noteq> NaN \<Longrightarrow> js_ge a (Finite c) \<longleftrightarrow> \<not> js_lt a (Finite c)"
  by (simp add: js_ge_def)

lemma toOpportunity_rec:
  "betRecommendation (toOpportunity p) =
     (if js_lt (numField p ''Edge'') (Finite 2) then ''Below threshold''
      else if js_gt (numField p ''Predicted Difference'') (numField p ''Line'')
      then ''Take '' @ js_to_string (p ''Favorite'') @ '' -'' @ js_num_to_string (numField p ''Line'')
      else ''Take '' @ js_to_string (p ''Underdog'') @ '' +'' @ js_num_to_string (numField p ''Line''))"
  by (simp add: toOpportunity_def Let_def js_ge_iff_not_lt numField_not_NaN)

lemma toBet_rec:
  "betRec (toBet cls m p) =
     (if js_ge (numField p ''Edge'') m then
        (if js_gt (numField p ''Predicted Difference'') (numField p ''Line'')
         then ''Take '' @ js_to_string (p ''Favorite'') @ '' -'' @ js_num_to_string (numField p ''Line'')
         else ''Take '' @ js_to_string (p ''Underdog'') @ '' +'' @ js_num_to_string (numField p ''Line''))
      else [])"
  by (simp add: toBet_def Let_def split: prod.splits)

lemma recommendation_processPredictions:
  assumes "opp \<in> set (processPredictions (Some preds))"
  shows "\<exists>p\<in>set preds. opp = toOpportunity p
          \<and> (betRecommendation opp = ''Below threshold'' \<longleftrightarrow> js_lt (edge opp) (Finite 2))
          \<and> (\<not> js_lt (edge opp) (Finite 2) \<longrightarrow>
               betRecommendation opp =
                 (if js_gt (ourLine opp) (vegasLine opp)
                  then ''Take '' @ js_to_string (p ''Favorite'') @ '' -'' @ js_num_to_string (vegasLine opp)
                  else ''Take '' @ js_to_string (p ''Underdog'') @ '' +'' @ js_num_to_string (vegasLine opp)))"
proof -
  from assms obtain p where p: "p \<in> set preds" "opp = toOpportunity p"
    by (auto simp: set_processPredictions)
  show ?thesis
    by (rule bexI [OF _ p(1)]) (simp add: p(2) toOpportunity_rec toOpportunity_fields)
qed

lemma recommendation_buildBets:
  assumes "bet \<in> set (buildBets cls (Finite 2) preds)"
  shows "\<exists>p\<in>set preds. bet = toBet cls (Finite 2) p
          \<and> (betRec bet = ''Below threshold'' \<longleftrightarrow> js_lt (bet_edge bet) (Finite 2))
          \<and> (\<not> js_lt (bet_edge bet) (Finite 2) \<longrightarrow>
               betRec bet =
                 (if js_gt (numField p ''Predicted Difference'') (bet_vegasLine bet)
                  then ''Take '' @ js_to_string (p ''Favorite'') @ '' -'' @ js_num_to_string (bet_vegasLine bet)
                  else ''Take '' @ js_to_string (p ''Underdog'') @ '' +'' @ js_num_to_string (bet_vegasLine bet)))"
proof -
  from assms obtain p where p: "p \<in> set preds" "bet = toBet cls (Finite 2) p"
    and ge: "js_ge (bet_edge bet) (Finite 2)"
    by (auto simp: set_buildBets)
  from ge have nlt: "\<not> js_lt (bet_edge bet) (Finite 2)" by (simp add: js_ge_def)
  from ge have ge': "js_ge (numField p ''Edge'') (Finite 2)" by (simp add: p(2) toBet_fields)
  show ?thesis
    by (rule bexI [OF _ p(1)]) (use nlt ge' in \<open>simp add: p(2) toBet_rec toBet_fields\<close>)
qed

lemma toBet_rec_default:
  "betRec (toBet cls (Finite 2) p) =
     (if js_lt (numField p ''Edge'') (Finite 2) then []
      else if js_gt (numField p ''Predicted Difference'') (numField p ''Line'')
      then ''Take '' @ js_to_string (p ''Favorite'') @ '' -'' @ js_num_to_string (numField p ''Line'')
      else ''Take '' @ js_to_string (p ''Underdog'') @ '' +'' @ js_num_to_string (numField p ''Line''))"
  by (simp add: toBet_rec js_ge_iff_not_lt numField_not_NaN)

lemma set_buildBets_default:
  "set (buildBets cls (Finite 2) preds)
     = toBet cls (Finite 2) ` {p \<in> set preds. hasLine p \<and> \<not> js_lt (numField p ''Edge'') (Finite 2)}"
  by (auto simp: set_buildBets toBet_fields js_ge_iff_not_lt numField_not_NaN)

text \<open>
  C2. With the default threshold 2.0, the record built from a row \<open>p\<close> carries the parsed
  edge, predicted difference and Vegas line of \<open>p\<close>, and its recommendation is
  \<open>Below threshold\<close> exactly when the parsed edge is below 2; otherwise it is
  \<open>Take <Favorite> -<Vegas line>\<close> when the parsed predicted difference exceeds the parsed
  Vegas line, and \<open>Take <Underdog> +<Vegas line>\<close> when it does not. The team is printed
  as the template literal prints the column, the line as the number is printed. The
  records emitted are those built from the rows that pass the filter; in the inline
  dashboards these are the rows with a usable line and an edge of at least 2, so no
  emitted record is below the threshold there.
\<close>

theorem recommendation_rule:
  "edge (toOpportunity p) = numField p ''Edge''
   \<and> ourLine (toOpportunity p) = numField p ''Predicted Difference''
   \<and> vegasLine (toOpportunity p) = numField p ''Line''
   \<and> betRecommendation (toOpportunity p) =
       (if js_lt (numField p ''Edge'') (Finite 2) then ''Below threshold''
        else if js_gt (numField p ''Predicted Difference'') (numField p ''Line'')
        then ''Take '' @ js_to_string (p ''Favorite'') @ '' -'' @ js_num_to_string (numField p ''Line'')
        else ''Take '' @ js_to_string (p ''Underdog'') @ '' +'' @ js_num_to_string (numField p ''Line''))
   \<and> (betRecommendation (toOpportunity p) = ''Below threshold''
        \<longleftrightarrow> js_lt (numField p ''Edge'') (Finite 2))
   \<and> set (processPredictions (Some preds)) = toOpportunity ` {p \<in> set preds. validPrediction p}
   \<and> bet_edge (toBet cls (Finite 2) p) = numField p ''Edge''
   \<and> bet_vegasLine (toBet cls (Finite 2) p) = numField p ''Line''
   \<and> betRec (toBet cls (Finite 2) p) =
       (if js_lt (numField p ''Edge'') (Finite 2) then []
        else if js_gt (numField p ''Predicted Difference'') (numField p ''Line'')
        then ''Take '' @ js_to_string (p ''Favorite'') @ '' -'' @ js_num_to_string (numField p ''Line'')
        else ''Take '' @ js_to_string (p ''Underdog'') @ '' +'' @ js_num_to_string (numField p ''Line''))
   \<and> set (bettingOpps (Finite 2) preds)
       = toBet classifySlider (Finite 2)
           ` {p \<in> set preds. hasLine p \<and> \<not> js_lt (numField p ''Edge'') (Finite 2)}
   \<and> set (bettingOppsTabbed preds)
       = toBet classifyTabbed (Finite 2)
           ` {p \<in> set preds. hasLine p \<and> \<not> js_lt (numField p ''Edge'') (Finite 2)}
   \<and> (\<forall>opp\<in>set (processPredictions (Some preds)). \<exists>p\<in>set preds. opp = toOpportunity p
       \<and> (betRecommendation opp = ''Below threshold'' \<longleftrightarrow> js_lt (edge opp) (Finite 2))
       \<and> (\<not> js_lt (edge opp) (Finite 2) \<longrightarrow>
            betRecommendation opp =
              (if js_gt (ourLine opp) (vegasLine opp)
               then ''Take '' @ js_to_string (p ''Favorite'') @ '' -'' @ js_num_to_string (vegasLine opp)
               else ''Take '' @ js_to_string (p ''Underdog'') @ '' +'' @ js_num_to_string (vegasLine opp))))
   \<and> (\<forall>bet\<in>set (bettingOpps (Finite 2) preds). \<exists>p\<in>set preds. bet = toBet classifySlider (Finite 2) p
       \<and> (betRec bet = ''Below threshold'' \<longleftrightarrow> js_lt (bet_edge bet) (Finite 2))
       \<and> (\<not> js_lt (bet_edge bet) (Finite 2) \<longrightarrow>
            betRec bet =
              (if js_gt (numField p ''Predicted Difference'') (bet_vegasLine bet)
               then ''Take '' @ js_to_string (p ''Favorite'') @ '' -'' @ js_num_to_string (bet_vegasLine bet)
               else ''Take '' @ js_to_string (p ''Underdog'') @ '' +'' @ js_num_to_string (bet_vegasLine bet))))
   \<and> (\<forall>bet\<in>set (bettingOppsTabbed preds). \<exists>p\<in>set preds. bet = toBet classifyTabbed (Finite 2) p
       \<and> (betRec bet = ''Below threshold'' \<longleftrightarrow> js_lt (bet_edge bet) (Finite 2))
       \<and> (\<not> js_lt (bet_edge bet) (Finite 2) \<longrightarrow>
            betRec bet =
              (if js_gt (numField p ''Predicted Difference'') (bet_vegasLine bet)
               then ''Take '' @ js_to_string (p ''Favorite'') @ '' -'' @ js_num_to_string (bet_vegasLine bet)
               else ''Take '' @ js_to_string (p ''Underdog'') @ '' +'' @ js_num_to_string (bet_vegasLine bet))))"
proof -
  have row: "betRecommendation (toOpportunity p) = ''Below threshold''
      \<longleftrightarrow> js_lt (numField p ''Edge'') (Finite 2)"
    by (simp add: toOpportunity_rec)
  have slider: "set (bettingOpps (Finite 2) preds)
      = toBet classifySlider (Finite 2)
          ` {p \<in> set preds. hasLine p \<and> \<not> js_lt (numField p ''Edge'') (Finite 2)}"
    and tabbed: "set (bettingOppsTabbed preds)
      = toBet classifyTabbed (Finite 2)
          ` {p \<in> set preds. hasLine p \<and> \<not> js_lt (numField p ''Edge'') (Finite 2)}"
    by (simp_all only: bettingOpps_def bettingOppsTabbed_def set_buildBets_default)
  note emitted = recommendation_processPredictions [of _ preds]
    recommendation_buildBets [of _ classifySlider preds, folded bettingOpps_def]
    recommendation_buildBets [of _ classifyTabbed preds, folded bettingOppsTabbed_def]
  show ?thesis
    by (intro conjI ballI toOpportunity_fields toOpportunity_rec row set_processPredictions
        toBet_fields toBet_rec_default slider tabbed emitted)
qed

lemma parseFloat_zero: "parseFloat ''0'' = Finite 0"
  by (simp add: parse_samples)

lemma numField_default: "parseFloat (js_to_string (p f)) = NaN \<Longrightarrow> numField p f = Finite 0"
  by (simp add: numField_def js_or_zero_def)

lemma numField_upd_zero: "numField (p(f \<mapsto> ''0'')) f = Finite 0"
  by (simp add: numField_def js_or_zero_def js_to_string_def parseFloat_zero)

lemma numField_upd_other: "g \<noteq> f \<Longrightarrow> numField (p(f \<mapsto> v)) g = numField p g"
  by (simp add: numField_def)

lemma toOpportunity_cong:
  assumes "\<And>g. g \<in> {''Edge'', ''Predicted Difference'', ''Line''} \<Longrightarrow> numField q g = numField p g"
    and "\<And>g. g \<in> {''Matchup'', ''Favorite'', ''Underdog''} \<Longrightarrow> q g = p g"
  shows "toOpportunity q = toOpportunity p"
  using assms by (simp add: toOpportunity_def Let_def)

lemma toBet_cong:
  assumes "\<And>g. g \<in> {''Edge'', ''Predicted Difference'', ''Line''} \<Longrightarrow> numField q g = numField p g"
    and "\<And>g. g \<in> {''Favorite'', ''Underdog''} \<Longrightarrow> q g = p g"
  shows "toBet cls m q = (toBet cls m p)\<lparr>spread := q\<rparr>"
  using assms by (simp add: toBet_def Let_def split: prod.splits)

lemma default_as_zero:
  assumes "f \<in> {''Edge'', ''Predicted Difference'', ''Line''}"
    and "parseFloat (js_to_string (p f)) = NaN"
  shows "toOpportunity p = toOpportunity (p(f \<mapsto> ''0''))"
    and "toBet cls m p = (toBet cls m (p(f \<mapsto> ''0'')))\<lparr>spread := p\<rparr>"
proof -
  have num: "numField p g = numField (p(f \<mapsto> ''0'')) g" for g
    by (cases "g = f") (simp_all add: numField_upd_zero numField_upd_other numField_default assms(2))
  have same: "p g = (p(f \<mapsto> ''0'')) g" if "g \<in> {''Matchup'', ''Favorite'', ''Underdog''}" for g
    using that assms(1) by auto
  show "toOpportunity p = toOpportunity (p(f \<mapsto> ''0''))"
    by (rule toOpportunity_cong) (simp_all only: num same)
  show "toBet cls m p = (toBet cls m (p(f \<mapsto> ''0'')))\<lparr>spread := p\<rparr>"
    by (rule toBet_cong) (use same in \<open>simp_all only: num, auto\<close>)
qed

lemma unparseable_edge_invalid:
  "parseFloat (js_to_string (p ''Edge'')) = NaN \<Longrightarrow> \<not> validPrediction p"
  by (simp add: validPrediction_def js_isNaN_def)

text \<open>
  C8, as amended. In the record built from a row that passes the filter of its builder,
  a numeric column that does not parse has the value 0, and the record is the one built
  from the row with \<open>0\<close> in that column: \<open>Predicted Difference\<close> and \<open>Line\<close> in
  \<open>processPredictions\<close>, and \<open>Edge\<close> as well in the inline dashboards (which keep the
  row itself in \<open>spread\<close>). \<open>processPredictions\<close> does not take an \<open>Edge\<close> that does
  not parse for 0: its filter drops the row. Nothing in the builders can fail, and the
  batch is never cut short: the output holds exactly one record for every row that
  passes the filter.
\<close>

theorem failed_parse_defaults:
  "(parseFloat (js_to_string (p ''Predicted Difference'')) = NaN \<longrightarrow>
      ourLine (toOpportunity p) = Finite 0
      \<and> toOpportunity p = toOpportunity (p(''Predicted Difference'' \<mapsto> ''0'')))
   \<and> (parseFloat (js_to_string (p ''Line'')) = NaN \<longrightarrow>
      vegasLine (toOpportunity p) = Finite 0
      \<and> toOpportunity p = toOpportunity (p(''Line'' \<mapsto> ''0''))
      \<and> bet_vegasLine (toBet cls m p) = Finite 0)
   \<and> (parseFloat (js_to_string (p ''Edge'')) = NaN \<longrightarrow>
      bet_edge (toBet cls m p) = Finite 0
      \<and> \<not> validPrediction p
      \<and> processPredictions (Some (xs @ p # ys)) = processPredictions (Some (xs @ ys)))
   \<and> (f \<in> {''Edge'', ''Predicted Difference'', ''Line''} \<and> parseFloat (js_to_string (p f)) = NaN \<longrightarrow>
      toBet cls m p = (toBet cls m (p(f \<mapsto> ''0'')))\<lparr>spread := p\<rparr>)
   \<and> mset (processPredictions (Some preds)) = mset (map toOpportunity (filter validPrediction preds))
   \<and> mset (bettingOpps m preds)
       = mset (filter (\<lambda>bet. js_ge (bet_edge bet) m) (map (toBet classifySlider m) (filter hasLine preds)))
   \<and> mset (bettingOppsTabbed preds)
       = mset (filter (\<lambda>bet. js_ge (bet_edge bet) (Finite 2))
                 (map (toBet classifyTabbed (Finite 2)) (filter hasLine preds)))"
  using default_as_zero(1) [of "''Predicted Difference''" p] default_as_zero(1) [of "''Line''" p]
    default_as_zero(2) [of f p cls m] unparseable_edge_invalid [of p]
  by (simp add: toOpportunity_fields toBet_fields numField_default numField_upd_zero
      processPredictions_Some
      bettingOpps_def bettingOppsTabbed_def buildBets_def mset_js_sort del: mset_filter mset_map)

text \<open>
  C8 as stated fails in \<open>processPredictions\<close> on the column \<open>Edge\<close>: the row with the
  edge \<open>abc\<close> is dropped, whereas the same row with the edge \<open>0\<close> is emitted with edge 0.
\<close>

theorem unparseable_edge_not_zero:
  "parseFloat (js_to_string
      ([''Matchup'' \<mapsto> ''A vs B'', ''Favorite'' \<mapsto> ''A'', ''Underdog'' \<mapsto> ''B'',
        ''Predicted Difference'' \<mapsto> ''7'', ''Line'' \<mapsto> ''3'', ''Edge'' \<mapsto> ''abc''] ''Edge'')) = NaN
   \<and> processPredictions
       (Some [[''Matchup'' \<mapsto> ''A vs B'', ''Favorite'' \<mapsto> ''A'', ''Underdog'' \<mapsto> ''B'',
          ''Predicted Difference'' \<mapsto> ''7'', ''Line'' \<mapsto> ''3'', ''Edge'' \<mapsto> ''abc'']]) = []
   \<and> map edge (processPredictions
       (Some [[''Matchup'' \<mapsto> ''A vs B'', ''Favorite'' \<mapsto> ''A'', ''Underdog'' \<mapsto> ''B'',
          ''Predicted Difference'' \<mapsto> ''7'', ''Line'' \<mapsto> ''3'', ''Edge'' \<mapsto> ''0'']])) = [Finite 0]
   \<and> map betRecommendation (processPredictions
       (Some [[''Matchup'' \<mapsto> ''A vs B'', ''Favorite'' \<mapsto> ''A'', ''Underdog'' \<mapsto> ''B'',
          ''Predicted Difference'' \<mapsto> ''7'', ''Line'' \<mapsto> ''3'', ''Edge'' \<mapsto> ''0'']]))
       = [''Below threshold'']"
  by (simp add: processPredictions_def js_sort_def builder_defs parse_defs)

lemma min_edge_buildBets:
  assumes "bet \<in> set (buildBets cls m preds)"
  shows "js_ge (bet_edge bet) m \<and> betRec bet \<noteq> ''Below threshold'' \<and> betRec bet \<noteq> []"
proof -
  from assms obtain p where p: "bet = toBet cls m p" and ge: "js_ge (bet_edge bet) m"
    by (auto simp: set_buildBets)
  from ge have "js_ge (numField p ''Edge'') m" by (simp add: p toBet_fields)
  then show ?thesis using ge by (simp add: p toBet_rec)
qed

text \<open>
  C10. In both inline dashboards every emitted record has an edge of at least the
  threshold and a recommendation that is neither \<open>Below threshold\<close> nor empty; a row
  mapped below the threshold has the empty recommendation and is not in the output.
\<close>

theorem min_edge_filter:
  "(\<forall>bet\<in>set (bettingOpps minEdge preds).
      js_ge (bet_edge bet) minEdge \<and> betRec bet \<noteq> ''Below threshold'' \<and> betRec bet \<noteq> [])
   \<and> (\<forall>bet\<in>set (bettingOppsTabbed preds).
      js_ge (bet_edge bet) (Finite 2) \<and> betRec bet \<noteq> ''Below threshold'' \<and> betRec bet \<noteq> [])
   \<and> (\<not> js_ge (bet_edge (toBet classifySlider minEdge p)) minEdge \<longrightarrow>
        betRec (toBet classifySlider minEdge p) = []
        \<and> toBet classifySlider minEdge p \<notin> set (bettingOpps minEdge preds))
   \<and> (\<not> js_ge (bet_edge (toBet classifyTabbed (Finite 2) p)) (Finite 2) \<longrightarrow>
        betRec (toBet classifyTabbed (Finite 2) p) = []
        \<and> toBet classifyTabbed (Finite 2) p \<notin> set (bettingOppsTabbed preds))"
proof -
  have gone: "\<not> js_ge (bet_edge (toBet cls m p)) m \<longrightarrow>
      betRec (toBet cls m p) = [] \<and> toBet cls m p \<notin> set (buildBets cls m preds)" for cls m
    using min_edge_buildBets [of "toBet cls m p" cls m preds]
    by (auto simp: toBet_rec toBet_fields)
  show ?thesis
    unfolding bettingOpps_def bettingOppsTabbed_def
    using min_edge_buildBets [of _ classifySlider minEdge preds]
      min_edge_buildBets [of _ classifyTabbed "Finite 2" preds]
      gone [of classifySlider minEdge] gone [of classifyTabbed "Finite 2"]
    by blast
qed

text \<open>
  C6. The single row \<open>{Matchup: A vs B, Favorite: A, Underdog: B, Predicted Difference: 7,
  Line: 3, Edge: 4}\<close> gives exactly one opportunity, in band \<open>2-5\<close>, with the
  recommendation \<open>Take A -3\<close>.
\<close>

theorem scenario_single_record:
  "processPredictions
     (Some [[''Matchup'' \<mapsto> ''A vs B'', ''Favorite'' \<mapsto> ''A'', ''Underdog'' \<mapsto> ''B'',
          ''Predicted Difference'' \<mapsto> ''7'', ''Line'' \<mapsto> ''3'', ''Edge'' \<mapsto> ''4'']])
   = [\<lparr> matchup = ''A vs B'', favorite = ''A'', underdog = ''B'', ourLine = Finite 7,
        vegasLine = Finite 3, edge = Finite 4, betRecommendation = ''Take A -3'',
        confidence = ''Fade (35.7%)'', edgeBand = ''2-5'' \<rparr>]"
  by (simp add: processPredictions_def js_sort_def builder_defs parse_defs print_samples)

theorem builder_sorted_stable_witness:
  "map matchup (filter (\<lambda>opp. edge opp = Finite 4)
     (processPredictions (Some [sampleRow ''G1'' ''7'' ''3'' ''4'', sampleRow ''G2'' ''1'' ''10.5'' ''9.5'',
        sampleRow ''G3'' ''10'' ''6'' ''4''])))
   = [''G1'', ''G3'']"
proof -
  let ?rows = "[sampleRow ''G1'' ''7'' ''3'' ''4'', sampleRow ''G2'' ''1'' ''10.5'' ''9.5'',
        sampleRow ''G3'' ''10'' ''6'' ''4'']"
  have "filter (\<lambda>opp. edge opp = Finite 4) (processPredictions (Some ?rows))
      = filter (\<lambda>opp. edge opp = Finite 4) (map toOpportunity (filter validPrediction ?rows))"
    using builder_sorted_stable [of ?rows "Finite 4"] by blast
  moreover have "map matchup (filter (\<lambda>opp. edge opp = Finite 4)
      (map toOpportunity (filter validPrediction ?rows))) = [''G1'', ''G3'']"
    by (simp add: sampleRow_def builder_defs parse_defs)
  ultimately show ?thesis by (simp only:)
qed

theorem unusable_line_excluded_witness:
  "processPredictions (Some [sampleRow ''G1'' ''7'' ''3'' ''4'', sampleRow ''G9'' ''7'' ''N/A'' ''4''])
     = processPredictions (Some [sampleRow ''G1'' ''7'' ''3'' ''4''])
   \<and> processPredictions (Some [sampleRow ''G9'' ''7'' ''N/A'' ''4'']) = []"
proof -
  have bad: "sampleRow ''G9'' ''7'' ''N/A'' ''4'' ''Line'' = None
      \<or> sampleRow ''G9'' ''7'' ''N/A'' ''4'' ''Line'' = Some []
      \<or> sampleRow ''G9'' ''7'' ''N/A'' ''4'' ''Line'' = Some ''N/A''
      \<or> sampleRow ''G9'' ''7'' ''N/A'' ''4'' ''Line'' = Some ''No Line Available''"
    by (simp add: sampleRow_def)
  from unusable_line_excluded
    [of "sampleRow ''G9'' ''7'' ''N/A'' ''4''" "[sampleRow ''G1'' ''7'' ''3'' ''4'']" "[]"] bad
  show ?thesis by simp
qed

theorem recommendation_rule_witness:
  "toOpportunity (sampleRow ''G0'' ''1'' ''3'' ''1.5'')
      \<in> set (processPredictions (Some [sampleRow ''G0'' ''1'' ''3'' ''1.5'',
            sampleRow ''G1'' ''7'' ''3'' ''4'', sampleRow ''G2'' ''1'' ''10.5'' ''9.5'']))
   \<and> betRecommendation (toOpportunity (sampleRow ''G0'' ''1'' ''3'' ''1.5'')) = ''Below threshold''
   \<and> toOpportunity (sampleRow ''G1'' ''7'' ''3'' ''4'')
      \<in> set (processPredictions (Some [sampleRow ''G0'' ''1'' ''3'' ''1.5'',
            sampleRow ''G1'' ''7'' ''3'' ''4'', sampleRow ''G2'' ''1'' ''10.5'' ''9.5'']))
   \<and> betRecommendation (toOpportunity (sampleRow ''G1'' ''7'' ''3'' ''4'')) = ''Take A -3''
   \<and> betRecommendation (toOpportunity (sampleRow ''G2'' ''1'' ''10.5'' ''9.5'')) = ''Take B +10.5''
   \<and> toBet classifySlider (Finite 2) (sampleRow ''G1'' ''7'' ''3'' ''4'')
      \<in> set (bettingOpps (Finite 2) [sampleRow ''G0'' ''1'' ''3'' ''1.5'',
            sampleRow ''G1'' ''7'' ''3'' ''4'', sampleRow ''G2'' ''1'' ''10.5'' ''9.5''])
   \<and> betRec (toBet classifySlider (Finite 2) (sampleRow ''G1'' ''7'' ''3'' ''4'')) = ''Take A -3''
   \<and> toBet classifyTabbed (Finite 2) (sampleRow ''G2'' ''1'' ''10.5'' ''9.5'')
      \<in> set (bettingOppsTabbed [sampleRow ''G0'' ''1'' ''3'' ''1.5'',
            sampleRow ''G1'' ''7'' ''3'' ''4'', sampleRow ''G2'' ''1'' ''10.5'' ''9.5''])
   \<and> betRec (toBet classifyTabbed (Finite 2) (sampleRow ''G2'' ''1'' ''10.5'' ''9.5'')) = ''Take B +10.5''
   \<and> toBet classifySlider (Finite 2) (sampleRow ''G0'' ''1'' ''3'' ''1.5'')
      \<notin> set (bettingOpps (Finite 2) [sampleRow ''G0'' ''1'' ''3'' ''1.5'',
            sampleRow ''G1'' ''7'' ''3'' ''4'', sampleRow ''G2'' ''1'' ''10.5'' ''9.5''])"
proof -
  let ?p0 = "sampleRow ''G0'' ''1'' ''3'' ''1.5''"
  let ?p1 = "sampleRow ''G1'' ''7'' ''3'' ''4''"
  let ?p2 = "sampleRow ''G2'' ''1'' ''10.5'' ''9.5''"
  let ?rows = "[?p0, ?p1, ?p2]"
  have num: "numField ?p0 ''Edge'' = Finite (3 / 2)" "numField ?p0 ''Predicted Difference'' = Finite 1"
    "numField ?p0 ''Line'' = Finite 3"
    "numField ?p1 ''Edge'' = Finite 4" "numField ?p1 ''Predicted Difference'' = Finite 7"
    "numField ?p1 ''Line'' = Finite 3"
    "numField ?p2 ''Edge'' = Finite (19 / 2)" "numField ?p2 ''Predicted Difference'' = Finite 1"
    "numField ?p2 ''Line'' = Finite (21 / 2)"
    by (simp_all add: numField_def js_or_zero_def sampleRow_def parse_defs)
  have names: "js_to_string (?p1 ''Favorite'') = ''A''" "js_to_string (?p2 ''Underdog'') = ''B''"
    by (simp_all add: sampleRow_def js_to_string_def)
  have ok: "validPrediction ?p0" "validPrediction ?p1" "hasLine ?p0" "hasLine ?p1" "hasLine ?p2"
    by (simp_all add: validPrediction_def hasLine_def js_truthy_def js_isNaN_def sampleRow_def
        parse_defs)
  note rule = recommendation_rule [of ?p0 ?rows] recommendation_rule [of ?p1 ?rows]
    recommendation_rule [of ?p2 ?rows]
  have sets: "set (processPredictions (Some ?rows)) = toOpportunity ` {p \<in> set ?rows. validPrediction p}"
    "set (bettingOpps (Finite 2) ?rows) = toBet classifySlider (Finite 2)
        ` {p \<in> set ?rows. hasLine p \<and> \<not> js_lt (numField p ''Edge'') (Finite 2)}"
    "set (bettingOppsTabbed ?rows) = toBet classifyTabbed (Finite 2)
        ` {p \<in> set ?rows. hasLine p \<and> \<not> js_lt (numField p ''Edge'') (Finite 2)}"
    using rule(1) by blast+
  have r0: "betRecommendation (toOpportunity ?p0) = ''Below threshold''"
    using rule(1) by (simp add: num)
  have r1: "betRecommendation (toOpportunity ?p1) = ''Take A -3''"
    "betRec (toBet classifySlider (Finite 2) ?p1) = ''Take A -3''"
    using rule(2) [where cls = classifySlider] by (simp_all add: num names js_gt_def print_samples)
  have r2: "betRecommendation (toOpportunity ?p2) = ''Take B +10.5''"
    "betRec (toBet classifyTabbed (Finite 2) ?p2) = ''Take B +10.5''"
    using rule(3) [where cls = classifyTabbed] by (simp_all add: num names js_gt_def print_samples)
  have m0: "toOpportunity ?p0 \<in> set (processPredictions (Some ?rows))"
    and m1: "toOpportunity ?p1 \<in> set (processPredictions (Some ?rows))"
    unfolding sets using ok by auto
  have b1: "toBet classifySlider (Finite 2) ?p1 \<in> set (bettingOpps (Finite 2) ?rows)"
    and b2: "toBet classifyTabbed (Finite 2) ?p2 \<in> set (bettingOppsTabbed ?rows)"
    unfolding sets using ok by (auto simp: num)
  have e0: "bet_edge (toBet classifySlider (Finite 2) ?p0) = Finite (3 / 2)"
    using rule(1) [where cls = classifySlider] by (simp add: num)
  have n0: "toBet classifySlider (Finite 2) ?p0 \<notin> set (bettingOpps (Finite 2) ?rows)"
  proof
    assume "toBet classifySlider (Finite 2) ?p0 \<in> set (bettingOpps (Finite 2) ?rows)"
    then obtain q where q: "toBet classifySlider (Finite 2) ?p0 = toBet classifySlider (Finite 2) q"
      "\<not> js_lt (numField q ''Edge'') (Finite 2)"
      unfolding sets by auto
    from q(1) have "bet_edge (toBet classifySlider (Finite 2) ?p0)
        = bet_edge (toBet classifySlider (Finite 2) q)" by simp
    then have "numField q ''Edge'' = Finite (3 / 2)" by (simp add: toBet_fields num)
    with q(2) show False by simp
  qed
  from m0 r0 m1 r1 r2 b1 b2 n0 show ?thesis by simp
qed

theorem failed_parse_defaults_witness:
  "parseFloat (js_to_string (sampleRow ''G5'' ''abc'' ''TBD'' ''n/a'' ''Edge'')) = NaN
   \<and> bet_edge (toBet classifySlider (Finite 0) (sampleRow ''G5'' ''abc'' ''TBD'' ''n/a'')) = Finite 0
   \<and> processPredictions (Some [sampleRow ''G5'' ''abc'' ''TBD'' ''n/a'']) = []
   \<and> parseFloat (js_to_string (sampleRow ''G5'' ''abc'' ''TBD'' ''n/a'' ''Predicted Difference'')) = NaN
   \<and> ourLine (toOpportunity (sampleRow ''G5'' ''abc'' ''TBD'' ''n/a'')) = Finite 0
   \<and> parseFloat (js_to_string (sampleRow ''G5'' ''abc'' ''TBD'' ''n/a'' ''Line'')) = NaN
   \<and> vegasLine (toOpportunity (sampleRow ''G5'' ''abc'' ''TBD'' ''n/a'')) = Finite 0"
proof -
  let ?p = "sampleRow ''G5'' ''abc'' ''TBD'' ''n/a''"
  have e: "parseFloat (js_to_string (?p ''Edge'')) = NaN"
    and d: "parseFloat (js_to_string (?p ''Predicted Difference'')) = NaN"
    and l: "parseFloat (js_to_string (?p ''Line'')) = NaN"
    by (simp_all add: sampleRow_def parse_defs)
  from failed_parse_defaults [of ?p classifySlider "Finite 0" "[]" "[]"] e d l
  have "bet_edge (toBet classifySlider (Finite 0) ?p) = Finite 0"
    and "processPredictions (Some ([] @ ?p # [])) = processPredictions (Some ([] @ []))"
    and "ourLine (toOpportunity ?p) = Finite 0"
    and "vegasLine (toOpportunity ?p) = Finite 0"
    by blast+
  with e d l show ?thesis by (simp add: processPredictions_def)
qed

theorem min_edge_filter_witness:
  "toBet classifySlider (Finite 2) (sampleRow ''G1'' ''7'' ''3'' ''4'')
      \<in> set (bettingOpps (Finite 2) [sampleRow ''G0'' ''1'' ''3'' ''1.5'', sampleRow ''G1'' ''7'' ''3'' ''4''])
   \<and> js_ge (bet_edge (toBet classifySlider (Finite 2) (sampleRow ''G1'' ''7'' ''3'' ''4''))) (Finite 2)
   \<and> betRec (toBet classifySlider (Finite 2) (sampleRow ''G1'' ''7'' ''3'' ''4'')) \<noteq> ''Below threshold''
   \<and> \<not> js_ge (bet_edge (toBet classifySlider (Finite 2) (sampleRow ''G0'' ''1'' ''3'' ''1.5''))) (Finite 2)
   \<and> toBet classifySlider (Finite 2) (sampleRow ''G0'' ''1'' ''3'' ''1.5'')
      \<notin> set (bettingOpps (Finite 2) [sampleRow ''G0'' ''1'' ''3'' ''1.5'', sampleRow ''G1'' ''7'' ''3'' ''4''])"
proof -
  let ?p0 = "sampleRow ''G0'' ''1'' ''3'' ''1.5''" and ?p1 = "sampleRow ''G1'' ''7'' ''3'' ''4''"
  have e1: "bet_edge (toBet classifySlider (Finite 2) ?p1) = Finite 4"
    and e0: "bet_edge (toBet classifySlider (Finite 2) ?p0) = Finite (3 / 2)"
    by (simp_all add: toBet_fields numField_def js_or_zero_def sampleRow_def parse_defs)
  have h1: "hasLine ?p1"
    by (simp add: hasLine_def js_truthy_def sampleRow_def)
  have mem: "toBet classifySlider (Finite 2) ?p1 \<in> set (bettingOpps (Finite 2) [?p0, ?p1])"
    using h1 by (simp add: bettingOpps_def set_buildBets e1 js_ge_def)
  have low: "\<not> js_ge (bet_edge (toBet classifySlider (Finite 2) ?p0)) (Finite 2)"
    by (simp add: e0 js_ge_def)
  from min_edge_filter [of "Finite 2" "[?p0, ?p1]" ?p0] mem low show ?thesis by blast
qed

theorem scenario_single_record_witness:
  "map edgeBand (processPredictions
     (Some [[''Matchup'' \<mapsto> ''A vs B'', ''Favorite'' \<mapsto> ''A'', ''Underdog'' \<mapsto> ''B'',
          ''Predicted Difference'' \<mapsto> ''7'', ''Line'' \<mapsto> ''3'', ''Edge'' \<mapsto> ''4'']])) = [''2-5'']
   \<and> map betRecommendation (processPredictions
     (Some [[''Matchup'' \<mapsto> ''A vs B'', ''Favorite'' \<mapsto> ''A'', ''Underdog'' \<mapsto> ''B'',
          ''Predicted Difference'' \<mapsto> ''7'', ''Line'' \<mapsto> ''3'', ''Edge'' \<mapsto> ''4'']])) = [''Take A -3'']"
  using scenario_single_record by simp

subsection \<open>Performance Aggregator\<close>

lemma filter_win_valid: "filter isWin (filter (\<lambda>bet. isWin bet \<or> isLoss bet) xs) = filter isWin xs"
  by (induction xs) simp_all

lemma filter_loss_valid: "filter isLoss (filter (\<lambda>bet. isWin bet \<or> isLoss bet) xs) = filter isLoss xs"
  by (induction xs) simp_all

lemma count_split:
  "length (filter isWin xs) + length (filter isLoss xs)
     = length (filter (\<lambda>bet. isWin bet \<or> isLoss bet) xs)"
  by (induction xs) (auto simp: isWin_def isLoss_def)

lemma calculatePerformance_Some:
  "calculatePerformance (Some cover) c =
     \<lparr> totalBets = length (filter (\<lambda>bet. isWin bet \<or> isLoss bet) cover),
       wins = length (filter isWin cover),
       losses = length (filter isLoss cover),
       winRate = (if length (filter (\<lambda>bet. isWin bet \<or> isLoss bet) cover) > 0
                  then js_mul (js_div (Finite (of_nat (length (filter isWin cover))))
                         (Finite (of_nat (length (filter (\<lambda>bet. isWin bet \<or> isLoss bet) cover)))))
                         (Finite 100)
                  else Finite 0),
       currentWeekOpportunities = c \<rparr>"
proof (cases "length cover = 0")
  case True
  then show ?thesis by (simp add: calculatePerformance_def)
next
  case False
  then show ?thesis
    by (simp only: calculatePerformance_def Let_def filter_win_valid filter_loss_valid
        option.case if_False)
qed

lemma calculatePerformance_None:
  "calculatePerformance None c =
     \<lparr> totalBets = 0, wins = 0, losses = 0, winRate = Finite 0, currentWeekOpportunities = c \<rparr>"
  by (simp add: calculatePerformance_def)

text \<open>The rate of \<open>w\<close> wins among \<open>n\<close> counted records.\<close>

lemma rate_value:
  assumes "w \<le> n" and "0 < n"
  shows "\<exists>r. js_mul (js_div (Finite (of_nat w)) (Finite (of_nat n))) (Finite 100) = Finite r
           \<and> 0 \<le> r \<and> r \<le> 100 \<and> \<bar>r - 100 * of_nat w / of_nat n\<bar> \<le> 1 / 2 ^ 45"
proof -
  let ?x = "of_nat w / of_nat n :: rat"
  have x: "0 \<le> ?x" "?x \<le> of_int 1" using assms by simp_all
  have "\<exists>q. fl64 ?x = Finite q \<and> 0 \<le> q \<and> q \<le> of_int 1 \<and> \<bar>q - ?x\<bar> \<le> pow2 (0 - 53)"
    by (rule fl64_bounds [OF x]) (simp_all add: pow2_def)
  then obtain q where q: "fl64 ?x = Finite q" "0 \<le> q" "q \<le> 1" "\<bar>q - ?x\<bar> \<le> 1 / 2 ^ 53"
    by (auto simp: pow2_def)
  have y: "0 \<le> q * 100" "q * 100 \<le> of_int 100" using q(2,3) by simp_all
  have "\<exists>r. fl64 (q * 100) = Finite r \<and> 0 \<le> r \<and> r \<le> of_int 100
      \<and> \<bar>r - q * 100\<bar> \<le> pow2 (6 - 53)"
    by (rule fl64_bounds [OF y]) (simp_all add: pow2_def)
  then obtain r where r: "fl64 (q * 100) = Finite r" "0 \<le> r" "r \<le> 100"
      "\<bar>r - q * 100\<bar> \<le> 1 / 2 ^ 47"
    by (auto simp: pow2_def)
  have "r - 100 * ?x = (r - q * 100) + 100 * (q - ?x)" by simp
  then have "\<bar>r - 100 * ?x\<bar> \<le> \<bar>r - q * 100\<bar> + \<bar>100 * (q - ?x)\<bar>"
    by (simp only: abs_triangle_ineq)
  also have "\<bar>100 * (q - ?x)\<bar> = 100 * \<bar>q - ?x\<bar>" by (subst abs_mult) simp
  also have "\<bar>r - q * 100\<bar> + 100 * \<bar>q - ?x\<bar> \<le> 1 / 2 ^ 47 + 100 * (1 / 2 ^ 53)"
    using r(4) q(4) by (intro add_mono mult_left_mono) simp_all
  also have "\<dots> \<le> 1 / 2 ^ 45" by simp
  finally have "\<bar>r - 100 * of_nat w / of_nat n\<bar> \<le> 1 / 2 ^ 45" by simp
  moreover have "js_mul (js_div (Finite (of_nat w)) (Finite (of_nat n))) (Finite 100) = Finite r"
    using assms(2) q(1) r(1) by (simp add: js_div.simps js_mul.simps)
  ultimately show ?thesis using r(2,3) by blast
qed

lemma rate_samples:
  "js_mul (js_div (Finite 3) (Finite 4)) (Finite 100) = Finite 75"
  "js_mul (js_div (Finite 7) (Finite 25)) (Finite 100) = Finite (7881299347898369 / 281474976710656)"
  "js_mul (js_div (Finite 2) (Finite 3)) (Finite 100) = Finite (2345624805922133 / 35184372088832)"
  by code_simp+

text \<open>
  C5, as amended. Only the records whose \<open>Result\<close> is exactly \<open>WIN\<close> or exactly \<open>LOSS\<close> are
  counted: \<open>totalBets\<close>, \<open>wins\<close> and \<open>losses\<close> are the numbers of such records, so any
  other result (\<open>PENDING\<close>, \<open>PUSH\<close>, \<open>win\<close>, empty, missing) adds to none of them. The
  win rate is 0 when the total is 0 and otherwise the number \<open>(wins / total) * 100\<close>, the
  quotient rounded to binary64 and then the product: a number within \<open>2 ^ - 45\<close> of
  \<open>100 * wins / total\<close>. It is 0 for no wins and no losses and exactly 75 for 3 wins and
  1 loss. The inline figures of the dashboards are the same.
\<close>

theorem performance_counts:
  "totalBets (calculatePerformance (Some cover) c)
      = length (filter (\<lambda>bet. bet ''Result'' = Some ''WIN'' \<or> bet ''Result'' = Some ''LOSS'') cover)
   \<and> wins (calculatePerformance (Some cover) c)
      = length (filter (\<lambda>bet. bet ''Result'' = Some ''WIN'') cover)
   \<and> losses (calculatePerformance (Some cover) c)
      = length (filter (\<lambda>bet. bet ''Result'' = Some ''LOSS'') cover)
   \<and> winRate (calculatePerformance (Some cover) c)
      = (if totalBets (calculatePerformance (Some cover) c) = 0 then Finite 0
         else js_mul (js_div (Finite (of_nat (wins (calculatePerformance (Some cover) c))))
                        (Finite (of_nat (totalBets (calculatePerformance (Some cover) c)))))
                (Finite 100))
   \<and> (totalBets (calculatePerformance (Some cover) c) \<noteq> 0 \<longrightarrow>
        (\<exists>r. winRate (calculatePerformance (Some cover) c) = Finite r
           \<and> \<bar>r - 100 * of_nat (wins (calculatePerformance (Some cover) c))
                    / of_nat (totalBets (calculatePerformance (Some cover) c))\<bar> \<le> 1 / 2 ^ 45))
   \<and> (wins (calculatePerformance (Some cover) c) = 0
        \<and> losses (calculatePerformance (Some cover) c) = 0
        \<longrightarrow> winRate (calculatePerformance (Some cover) c) = Finite 0)
   \<and> (wins (calculatePerformance (Some cover) c) = 3
        \<and> losses (calculatePerformance (Some cover) c) = 1
        \<longrightarrow> winRate (calculatePerformance (Some cover) c) = Finite 75)
   \<and> coverSummary cover
      = (totalBets (calculatePerformance (Some cover) c),
         wins (calculatePerformance (Some cover) c),
         winRate (calculatePerformance (Some cover) c))
   \<and> calculatePerformance None c
      = \<lparr> totalBets = 0, wins = 0, losses = 0, winRate = Finite 0,
          currentWeekOpportunities = c \<rparr>"
proof -
  let ?m = "calculatePerformance (Some cover) c"
  have t: "totalBets ?m = length (filter (\<lambda>bet. isWin bet \<or> isLoss bet) cover)"
    and w: "wins ?m = length (filter isWin cover)"
    and l: "losses ?m = length (filter isLoss cover)"
    and r: "winRate ?m = (if totalBets ?m > 0
        then js_mul (js_div (Finite (of_nat (wins ?m))) (Finite (of_nat (totalBets ?m)))) (Finite 100)
        else Finite 0)"
    by (simp_all add: calculatePerformance_Some)
  have total: "wins ?m + losses ?m = totalBets ?m"
    using count_split [of cover] by (simp add: t w l)
  have c1: "totalBets ?m
      = length (filter (\<lambda>bet. bet ''Result'' = Some ''WIN'' \<or> bet ''Result'' = Some ''LOSS'') cover)"
    using t by (simp add: isWin_def isLoss_def)
  have c2: "wins ?m = length (filter (\<lambda>bet. bet ''Result'' = Some ''WIN'') cover)"
    using w by (simp add: isWin_def [abs_def])
  have c3: "losses ?m = length (filter (\<lambda>bet. bet ''Result'' = Some ''LOSS'') cover)"
    using l by (simp add: isLoss_def [abs_def])
  have c4: "winRate ?m = (if totalBets ?m = 0 then Finite 0
      else js_mul (js_div (Finite (of_nat (wins ?m))) (Finite (of_nat (totalBets ?m)))) (Finite 100))"
    by (simp add: r)
  have c5: "totalBets ?m \<noteq> 0 \<longrightarrow>
      (\<exists>r. winRate ?m = Finite r
         \<and> \<bar>r - 100 * of_nat (wins ?m) / of_nat (totalBets ?m)\<bar> \<le> 1 / 2 ^ 45)"
  proof
    assume nz: "totalBets ?m \<noteq> 0"
    from total have "wins ?m \<le> totalBets ?m" by simp
    from rate_value [OF this] nz show "\<exists>r. winRate ?m = Finite r
        \<and> \<bar>r - 100 * of_nat (wins ?m) / of_nat (totalBets ?m)\<bar> \<le> 1 / 2 ^ 45"
      by (auto simp: c4)
  qed
  have c6: "wins ?m = 0 \<and> losses ?m = 0 \<longrightarrow> winRate ?m = Finite 0"
    using total by (simp add: c4)
  have c7: "wins ?m = 3 \<and> losses ?m = 1 \<longrightarrow> winRate ?m = Finite 75"
  proof
    assume a: "wins ?m = 3 \<and> losses ?m = 1"
    with total have "totalBets ?m = 4" by simp
    with a show "winRate ?m = Finite 75" by (simp add: c4 rate_samples)
  qed
  have c8: "coverSummary cover = (totalBets ?m, wins ?m, winRate ?m)"
    unfolding r unfolding t w
    by (simp only: coverSummary_def Let_def filter_win_valid)
  have c9: "calculatePerformance None c
      = \<lparr> totalBets = 0, wins = 0, losses = 0, winRate = Finite 0,
          currentWeekOpportunities = c \<rparr>"
    by (rule calculatePerformance_None)
  from c1 c2 c3 c4 c5 c6 c7 c8 c9 show ?thesis by blast
qed

text \<open>
  C5 as stated fails on the win rate: with 7 wins and 18 losses the code returns
  28.000000000000004, the binary64 product of 0.28 and 100, and not \<open>100 * 7 / 25 = 28\<close>.
\<close>

theorem win_rate_not_exact:
  "wins (calculatePerformance
       (Some (replicate 7 (outcomeRow ''G'' ''WIN'') @ replicate 18 (outcomeRow ''G'' ''LOSS'')))
       (Finite 0)) = 7
   \<and> totalBets (calculatePerformance
       (Some (replicate 7 (outcomeRow ''G'' ''WIN'') @ replicate 18 (outcomeRow ''G'' ''LOSS'')))
       (Finite 0)) = 25
   \<and> winRate (calculatePerformance
       (Some (replicate 7 (outcomeRow ''G'' ''WIN'') @ replicate 18 (outcomeRow ''G'' ''LOSS'')))
       (Finite 0)) = Finite (28 + 1 / 2 ^ 48)
   \<and> winRate (calculatePerformance
       (Some (replicate 7 (outcomeRow ''G'' ''WIN'') @ replicate 18 (outcomeRow ''G'' ''LOSS'')))
       (Finite 0)) \<noteq> Finite (100 * 7 / 25)"
  by (simp add: calculatePerformance_Some outcomeRow_def isWin_def isLoss_def rate_samples)

theorem performance_counts_witness:
  "totalBets (calculatePerformance
       (Some [outcomeRow ''G1'' ''WIN'', outcomeRow ''G2'' ''WIN'', outcomeRow ''G3'' ''LOSS'',
              outcomeRow ''G4'' ''PENDING'', outcomeRow ''G5'' ''win'', outcomeRow ''G6'' [],
              outcomeRow ''G7'' ''WIN'', outcomeRow ''G8'' ''PUSH'']) (Finite 5)) = 4
   \<and> wins (calculatePerformance
       (Some [outcomeRow ''G1'' ''WIN'', outcomeRow ''G2'' ''WIN'', outcomeRow ''G3'' ''LOSS'',
              outcomeRow ''G4'' ''PENDING'', outcomeRow ''G5'' ''win'', outcomeRow ''G6'' [],
              outcomeRow ''G7'' ''WIN'', outcomeRow ''G8'' ''PUSH'']) (Finite 5)) = 3
   \<and> losses (calculatePerformance
       (Some [outcomeRow ''G1'' ''WIN'', outcomeRow ''G2'' ''WIN'', outcomeRow ''G3'' ''LOSS'',
              outcomeRow ''G4'' ''PENDING'', outcomeRow ''G5'' ''win'', outcomeRow ''G6'' [],
              outcomeRow ''G7'' ''WIN'', outcomeRow ''G8'' ''PUSH'']) (Finite 5)) = 1
   \<and> winRate (calculatePerformance
       (Some [outcomeRow ''G1'' ''WIN'', outcomeRow ''G2'' ''WIN'', outcomeRow ''G3'' ''LOSS'',
              outcomeRow ''G4'' ''PENDING'', outcomeRow ''G5'' ''win'', outcomeRow ''G6'' [],
              outcomeRow ''G7'' ''WIN'', outcomeRow ''G8'' ''PUSH'']) (Finite 5)) = Finite 75"
  using performance_counts
    [of "[outcomeRow ''G1'' ''WIN'', outcomeRow ''G2'' ''WIN'', outcomeRow ''G3'' ''LOSS'',
          outcomeRow ''G4'' ''PENDING'', outcomeRow ''G5'' ''win'', outcomeRow ''G6'' [],
          outcomeRow ''G7'' ''WIN'', outcomeRow ''G8'' ''PUSH'']" "Finite 5"]
  by (simp add: outcomeRow_def rate_samples)

text \<open>
  C9. Whatever the outcome records and the count passed in: \<open>wins + losses = totalBets\<close>,
  no count is negative, the win rate is a finite number between 0 and 100, and
  \<open>currentWeekOpportunities\<close> is the count passed in.
\<close>

theorem performance_invariants:
  "wins (calculatePerformance coverAnalysis c) + losses (calculatePerformance coverAnalysis c)
      = totalBets (calculatePerformance coverAnalysis c)
   \<and> 0 \<le> wins (calculatePerformance coverAnalysis c)
   \<and> 0 \<le> losses (calculatePerformance coverAnalysis c)
   \<and> 0 \<le> totalBets (calculatePerformance coverAnalysis c)
   \<and> (\<exists>r. winRate (calculatePerformance coverAnalysis c) = Finite r \<and> 0 \<le> r \<and> r \<le> 100)
   \<and> js_ge (winRate (calculatePerformance coverAnalysis c)) (Finite 0)
   \<and> js_ge (Finite 100) (winRate (calculatePerformance coverAnalysis c))
   \<and> currentWeekOpportunities (calculatePerformance coverAnalysis c) = c"
proof (cases coverAnalysis)
  case None
  then show ?thesis by (simp add: calculatePerformance_None js_ge_def)
next
  case (Some cover)
  let ?n = "length (filter (\<lambda>bet. isWin bet \<or> isLoss bet) cover)"
  have le: "length (filter isWin cover) \<le> ?n"
    using count_split [of cover] by simp
  have "\<exists>r. winRate (calculatePerformance (Some cover) c) = Finite r \<and> 0 \<le> r \<and> r \<le> 100"
  proof (cases "0 < ?n")
    case True
    from rate_value [OF le True] show ?thesis
      using True by (auto simp: calculatePerformance_Some)
  next
    case False
    then show ?thesis by (simp add: calculatePerformance_Some)
  qed
  then obtain r where r: "winRate (calculatePerformance (Some cover) c) = Finite r"
    "0 \<le> r" "r \<le> 100" by blast
  then have "js_ge (winRate (calculatePerformance (Some cover) c)) (Finite 0)"
    "js_ge (Finite 100) (winRate (calculatePerformance (Some cover) c))"
    by (simp_all add: js_ge_def not_less)
  with r count_split [of cover] Some show ?thesis
    by (simp add: calculatePerformance_Some)
qed

theorem performance_invariants_witness:
  "wins (calculatePerformance (Some [outcomeRow ''G1'' ''WIN'', outcomeRow ''G2'' ''LOSS'',
       outcomeRow ''G3'' ''PUSH'']) (Finite 7))
     + losses (calculatePerformance (Some [outcomeRow ''G1'' ''WIN'', outcomeRow ''G2'' ''LOSS'',
       outcomeRow ''G3'' ''PUSH'']) (Finite 7)) = 2
   \<and> currentWeekOpportunities (calculatePerformance (Some [outcomeRow ''G1'' ''WIN'',
       outcomeRow ''G2'' ''LOSS'', outcomeRow ''G3'' ''PUSH'']) (Finite 7)) = Finite 7"
  using performance_invariants
    [of "Some [outcomeRow ''G1'' ''WIN'', outcomeRow ''G2'' ''LOSS'', outcomeRow ''G3'' ''PUSH'']"
        "Finite 7"]
  by (simp add: calculatePerformance_Some outcomeRow_def isWin_def isLoss_def)

subsection \<open>Row Normalizer\<close>

lemma rowObject_Nil: "rowObject [] row = Map.empty"
  by (simp add: rowObject_def)

lemma rowObject_snoc:
  "rowObject (hs @ [h]) row =
     (if h = ''__proto__'' then rowObject hs row
      else (rowObject hs row)(h \<mapsto> js_or_empty (cell row (length hs))))"
  by (simp add: rowObject_def enumerate_append_eq)

lemma js_or_empty_cell:
  "js_or_empty (cell row i) = (if i < length row then row ! i else [])"
  by (simp add: js_or_empty_def cell_def)

lemma dom_rowObject: "dom (rowObject hs row) = set hs - {''__proto__''}"
proof (induction hs rule: rev_induct)
  case Nil
  then show ?case by (simp add: rowObject_Nil)
next
  case (snoc h hs)
  show ?case
  proof (cases "h = ''__proto__''")
    case True
    with snoc.IH show ?thesis by (auto simp: rowObject_snoc)
  next
    case False
    then have "dom (rowObject (hs @ [h]) row) = insert h (dom (rowObject hs row))"
      by (simp only: rowObject_snoc dom_fun_upd option.distinct if_False)
    with snoc.IH False show ?thesis by auto
  qed
qed

lemma rowObject_last_occurrence:
  assumes "i < length hs" and "\<forall>j. i < j \<and> j < length hs \<longrightarrow> hs ! j \<noteq> hs ! i"
    and "hs ! i \<noteq> ''__proto__''"
  shows "rowObject hs row (hs ! i) = Some (if i < length row then row ! i else [])"
  using assms
proof (induction hs rule: rev_induct)
  case Nil
  then show ?case by simp
next
  case (snoc h hs)
  show ?case
  proof (cases "i = length hs")
    case True
    with snoc.prems(3) show ?thesis by (simp add: rowObject_snoc js_or_empty_cell)
  next
    case False
    with snoc.prems(1) have i: "i < length hs" by simp
    from snoc.prems(2) i have "(hs @ [h]) ! length hs \<noteq> (hs @ [h]) ! i"
      by (metis length_append_singleton lessI)
    with i have neq: "h \<noteq> hs ! i" by (simp add: nth_append)
    have "\<forall>j. i < j \<and> j < length hs \<longrightarrow> hs ! j \<noteq> hs ! i"
    proof (intro allI impI)
      fix j assume j: "i < j \<and> j < length hs"
      with snoc.prems(2) have "(hs @ [h]) ! j \<noteq> (hs @ [h]) ! i" by simp
      with i j show "hs ! j \<noteq> hs ! i" by (simp add: nth_append)
    qed
    moreover from snoc.prems(3) i have "hs ! i \<noteq> ''__proto__''" by (simp add: nth_append)
    ultimately have "rowObject hs row (hs ! i) = Some (if i < length row then row ! i else [])"
      using snoc.IH i by simp
    with neq i show ?thesis by (simp add: rowObject_snoc nth_append)
  qed
qed

text \<open>
  C7, as amended. With at most one row the output is empty. Otherwise there is one
  record per data row, its keys are the header texts other than \<open>__proto__\<close>, and such a
  header text is mapped to the cell at the index of its last occurrence in the header
  row (the empty string when the row is too short): to the cell at its own index
  whenever no later header has the same text. The header text \<open>__proto__\<close> gives no key.
\<close>

theorem normalizer_last_header_wins:
  "(length d \<le> 1 \<longrightarrow> predictionRows d = [])
   \<and> (1 < length d \<longrightarrow>
        length (predictionRows d) = length d - 1
        \<and> (\<forall>r < length d - 1.
             dom (predictionRows d ! r) = set (d ! 0) - {''__proto__''}
             \<and> (\<forall>i < length (d ! 0).
                  d ! 0 ! i \<noteq> ''__proto__'' \<longrightarrow>
                  (\<forall>j. i < j \<and> j < length (d ! 0) \<longrightarrow> d ! 0 ! j \<noteq> d ! 0 ! i) \<longrightarrow>
                  (predictionRows d ! r) (d ! 0 ! i)
                    = Some (if i < length (d ! Suc r) then d ! Suc r ! i else []))))"
  by (auto simp: predictionRows_def dom_rowObject rowObject_last_occurrence)

text \<open>
  C7 as stated fails when a header text occurs twice: with the header row \<open>H, H\<close> and the
  data row \<open>x, y\<close>, the header at index 0 is mapped to \<open>y\<close>, the cell at index 1. It
  fails as well on the header text \<open>__proto__\<close>, which is mapped to nothing.
\<close>

theorem normalizer_duplicate_header:
  "(predictionRows [[''H'', ''H''], [''x'', ''y'']] ! 0) ([''H'', ''H''] ! 0) = Some ''y''
   \<and> (predictionRows [[''H'', ''H''], [''x'', ''y'']] ! 0) ([''H'', ''H''] ! 0)
       \<noteq> Some ([''x'', ''y''] ! 0)
   \<and> (predictionRows [[''__proto__'', ''A''], [''x'', ''y'']] ! 0) ([''__proto__'', ''A''] ! 0) = None
   \<and> (predictionRows [[''__proto__'', ''A''], [''x'', ''y'']] ! 0) ([''__proto__'', ''A''] ! 0)
       \<noteq> Some ([''x'', ''y''] ! 0)
   \<and> (predictionRows [[''__proto__'', ''A''], [''x'', ''y'']] ! 0) ''A'' = Some ''y''"
  by (simp add: predictionRows_def rowObject_def cell_def js_or_empty_def)

theorem normalizer_last_header_wins_witness:
  "(predictionRows [[''Matchup'', ''Line'', ''Edge''], [''A vs B'', ''3''], [''C vs D'', ''N/A'', ''4'']] ! 0) ''Edge''
     = Some []
   \<and> (predictionRows [[''Matchup'', ''Line'', ''Edge''], [''A vs B'', ''3''], [''C vs D'', ''N/A'', ''4'']] ! 1) ''Line''
     = Some ''N/A''
   \<and> length (predictionRows [[''Matchup'', ''Line'', ''Edge''], [''A vs B'', ''3''], [''C vs D'', ''N/A'', ''4'']]) = 2
   \<and> predictionRows [[''Matchup'', ''Line'', ''Edge'']] = []"
proof -
  let ?d = "[[''Matchup'', ''Line'', ''Edge''], [''A vs B'', ''3''], [''C vs D'', ''N/A'', ''4'']]"
  have len: "1 < length ?d" by simp
  note body = normalizer_last_header_wins [of ?d, THEN conjunct2, THEN mp, OF len]
  note n = body [THEN conjunct1]
  note at = body [THEN conjunct2, THEN spec, THEN mp, THEN conjunct2, THEN spec, THEN mp,
    THEN mp, THEN mp]
  have last2: "\<forall>j. 2 < j \<and> j < length (?d ! 0) \<longrightarrow> ?d ! 0 ! j \<noteq> ?d ! 0 ! 2" by simp
  have last1: "\<forall>j. 1 < j \<and> j < length (?d ! 0) \<longrightarrow> ?d ! 0 ! j \<noteq> ?d ! 0 ! 1"
    by (auto simp: less_Suc_eq numeral_3_eq_3)
  have a: "(predictionRows ?d ! 0) ''Edge'' = Some []"
    using at [of 0 2, OF _ _ _ last2] by simp
  have b: "(predictionRows ?d ! 1) ''Line'' = Some ''N/A''"
    using at [of 1 1, OF _ _ _ last1] by simp
  from normalizer_last_header_wins [of "[[''Matchup'', ''Line'', ''Edge'']]"]
  have c: "predictionRows [[''Matchup'', ''Line'', ''Edge'']] = []" by simp
  from a b c n show ?thesis by simp
qed

end
